theory Spec2Isabelle
  imports Main
begin

section \<open>Azure Kinect to LSL streamer: the two pipelines of AKlsl.cpp\<close>

text \<open>
  The source file holds two near-duplicate programs. The first (lines 26 to 164, the
  documented one) is called pipeline A here, the second (lines 179 to 334) pipeline B.
  Every definition with suffix \<open>_A\<close> or \<open>_B\<close> embeds the corresponding part of
  that \<open>main\<close>; definitions without suffix are shared by both.

  The device, the body tracker and the LSL transport are external collaborators. What
  a call to them returns is an input of the model (\<open>startup_io\<close>, \<open>frame_io\<close>); every
  call that acquires, releases, publishes, prints or shuts something down is logged as
  an \<open>event\<close>, in program order. Float values are only ever copied by the program, so
  their type is a parameter \<open>'f\<close>.
\<close>

subsection \<open>Result codes and handles of the SDKs\<close>

datatype k4a_result_t = K4A_RESULT_SUCCEEDED | K4A_RESULT_FAILED

datatype k4a_wait_result_t =
  K4A_WAIT_RESULT_SUCCEEDED | K4A_WAIT_RESULT_FAILED | K4A_WAIT_RESULT_TIMEOUT

text \<open>
  The processing mode of a tracker configuration. \<open>K4ABT_TRACKER_CONFIG_DEFAULT\<close> is a
  macro of the SDK; the mode it selects is kept as a constructor of its own.
\<close>

datatype k4abt_tracker_processing_mode_t =
  K4ABT_TRACKER_PROCESSING_MODE_GPU_CUDA
| K4ABT_TRACKER_PROCESSING_MODE_CPU
| K4ABT_TRACKER_CONFIG_DEFAULT

text \<open>The variable \<open>tracker\<close>: \<open>NULL\<close>, or the handle a successful create stored in it.\<close>

datatype k4abt_tracker_t = NULL | tracker_handle k4abt_tracker_processing_mode_t

datatype lsl_channel_format_t =
  cft_undefined | cft_float32 | cft_double64 | cft_string
| cft_int32 | cft_int16 | cft_int8 | cft_int64

subsection \<open>Skeletons and the joint table\<close>

record 'f k4a_float3_t =
  xyz_x :: 'f
  xyz_y :: 'f
  xyz_z :: 'f

record 'f k4a_quaternion_t =
  wxyz_w :: 'f
  wxyz_x :: 'f
  wxyz_y :: 'f
  wxyz_z :: 'f

record 'f k4abt_joint_t =
  position :: "'f k4a_float3_t"
  orientation :: "'f k4a_quaternion_t"

text \<open>\<open>skeleton.joints[id]\<close>: the array is indexed by the joint identifier.\<close>

record 'f k4abt_skeleton_t =
  joints :: "nat \<Rightarrow> 'f k4abt_joint_t"

text \<open>
  A popped body frame is the list of the skeletons of its bodies;
  \<open>k4abt_frame_get_num_bodies\<close> is its length.
\<close>

type_synonym 'f k4abt_frame_t = "'f k4abt_skeleton_t list"

definition k4abt_frame_get_num_bodies :: "'f k4abt_frame_t \<Rightarrow> nat" where
  "k4abt_frame_get_num_bodies body_frame = length body_frame"

text \<open>
  \<open>k4abt_frame_get_body_skeleton(body_frame, i, &skeleton)\<close> fills the local
  \<open>skeleton\<close> when body \<open>i\<close> exists; otherwise the local stays uninitialised (\<open>None\<close>).
\<close>

definition k4abt_frame_get_body_skeleton ::
  "'f k4abt_frame_t \<Rightarrow> nat \<Rightarrow> 'f k4abt_skeleton_t option" where
  "k4abt_frame_get_body_skeleton body_frame i =
     (if i < length body_frame then Some (body_frame ! i) else None)"

text \<open>
  \<open>g_jointNames\<close> (declared in BodyTrackingHelpers.h, which is not part of the source
  given) is a parameter: the sequence of (joint id, name) pairs from \<open>begin()\<close> to
  \<open>end()\<close>. The map is never modified, so every loop over it sees the same sequence.
\<close>

type_synonym jointNames = "(nat \<times> string) list"

subsection \<open>The stream descriptor\<close>

text \<open>
  The XML description of a stream: \<open>lsl_append_child\<close> adds an element,
  \<open>lsl_append_child_value\<close> adds an element that holds a text value.
\<close>

datatype xml = child string "xml list" | child_value string string

record lsl_streaminfo =
  si_name :: string
  si_type :: string
  channel_count :: nat
  nominal_srate :: nat
  channel_format :: lsl_channel_format_t
  source_id :: string
  desc :: "xml list"

definition lsl_create_streaminfo ::
  "string \<Rightarrow> string \<Rightarrow> nat \<Rightarrow> nat \<Rightarrow> lsl_channel_format_t \<Rightarrow> string \<Rightarrow> lsl_streaminfo" where
  "lsl_create_streaminfo nm ty cc rate fmt sid =
     \<lparr>si_name = nm, si_type = ty, channel_count = cc, nominal_srate = rate,
      channel_format = fmt, source_id = sid, desc = []\<rparr>"

definition suffixes :: "string list" where
  "suffixes = [''_posx'', ''_posy'', ''_posz'', ''_oriw'', ''_orix'', ''_oriy'', ''_oriz'']"

text \<open>Pipeline A, lines 77 to 86: one \<open>channel\<close> element with name and unit per label.\<close>

fun append_suffixes_A :: "xml list \<Rightarrow> string \<Rightarrow> string list \<Rightarrow> xml list" where
  "append_suffixes_A chns jointName [] = chns"
| "append_suffixes_A chns jointName (suffix # rest) =
     append_suffixes_A
       (chns @ [child ''channel''
                  [child_value ''name'' (jointName @ suffix), child_value ''unit'' ''mm'']])
       jointName rest"

fun append_channels_A :: "xml list \<Rightarrow> jointNames \<Rightarrow> xml list" where
  "append_channels_A chns [] = chns"
| "append_channels_A chns (it # rest) =
     append_channels_A (append_suffixes_A chns (snd it) suffixes) rest"

text \<open>Pipeline B, lines 226 to 235: one empty element, named by the label, per label.\<close>

fun append_channels_B :: "xml list \<Rightarrow> jointNames \<Rightarrow> xml list" where
  "append_channels_B chns [] = chns"
| "append_channels_B chns (it # rest) =
     append_channels_B
       (chns @ [child (snd it @ ''_posx'') [], child (snd it @ ''_posy'') [],
                child (snd it @ ''_posz'') [], child (snd it @ ''_oriw'') [],
                child (snd it @ ''_orix'') [], child (snd it @ ''_oriy'') [],
                child (snd it @ ''_oriz'') []])
       rest"

text \<open>
  Lines 59, 64 and 68 to 86 (A), 209, 214 and 220 to 235 (B): the stream info created
  in the branch taken by the tracker creation, then described. \<open>fallback\<close> is true in
  the branch entered when the first \<open>k4abt_tracker_create\<close> did not succeed.
\<close>

definition create_info :: "bool \<Rightarrow> lsl_streaminfo" where
  "create_info fallback =
     (if fallback
      then lsl_create_streaminfo ''Azure-Kinect'' ''MoCap'' (32 * 7) 4 cft_double64 ''325wqer4354''
      else lsl_create_streaminfo ''Azure-Kinect'' ''MoCap'' (32 * 7) 10 cft_double64 ''325wqer4354'')"

definition describe_A :: "jointNames \<Rightarrow> lsl_streaminfo \<Rightarrow> lsl_streaminfo" where
  "describe_A g_jointNames info =
     info\<lparr>desc := desc info @
        [child_value ''manufacturer'' ''University of Groningen'',
         child_value ''model'' ''Azure Kinect'',
         child ''channels'' (append_channels_A [] g_jointNames)]\<rparr>"

definition describe_B :: "jointNames \<Rightarrow> lsl_streaminfo \<Rightarrow> lsl_streaminfo" where
  "describe_B g_jointNames info =
     info\<lparr>desc := desc info @
        [child_value ''manufacturer'' ''University of Groningen'',
         child_value ''model'' ''Azure Kinect'',
         child ''channels'' (append_channels_B [] g_jointNames),
         child_value ''unit'' ''mm'']\<rparr>"

text \<open>
  Reading the labels back from a description: the children of its \<open>channels\<close>
  element; the label of a channel is its \<open>name\<close> value (A) or its element name (B).
\<close>

fun channels_of :: "xml list \<Rightarrow> xml list" where
  "channels_of [] = []"
| "channels_of (child nm kids # rest) =
     (if nm = ''channels'' then kids else channels_of rest)"
| "channels_of (child_value nm v # rest) = channels_of rest"

fun name_value :: "xml list \<Rightarrow> string" where
  "name_value [] = []"
| "name_value (child_value nm v # rest) = (if nm = ''name'' then v else name_value rest)"
| "name_value (child nm kids # rest) = name_value rest"

fun label_A :: "xml \<Rightarrow> string" where
  "label_A (child nm kids) = name_value kids"
| "label_A (child_value nm v) = []"

fun label_B :: "xml \<Rightarrow> string" where
  "label_B (child nm kids) = nm"
| "label_B (child_value nm v) = nm"

definition channel_labels_A :: "lsl_streaminfo \<Rightarrow> string list" where
  "channel_labels_A info = map label_A (channels_of (desc info))"

definition channel_labels_B :: "lsl_streaminfo \<Rightarrow> string list" where
  "channel_labels_B info = map label_B (channels_of (desc info))"

text \<open>The labels the specification asks for: seven per joint, in table order.\<close>

definition expected_labels :: "jointNames \<Rightarrow> string list" where
  "expected_labels J = concat (map (\<lambda>it. map (\<lambda>suffix. snd it @ suffix) suffixes) J)"

subsection \<open>The pose buffer and the extractor\<close>

text \<open>
  \<open>float data[7 * 31]\<close> is declared without initialiser inside the loop body. A cell is
  \<open>None\<close> while its value is indeterminate and \<open>Some v\<close> once \<open>v\<close> was stored. A
  store past the end of the array is undefined behaviour: the model stops with
  \<open>out_of_bounds\<close>.
\<close>

datatype fault = out_of_bounds

type_synonym 'f buffer = "'f option list"

definition uninitialised :: "nat \<Rightarrow> 'f buffer" where
  "uninitialised n = replicate n None"

abbreviation data_decl :: "'f buffer" where
  "data_decl \<equiv> uninitialised (7 * 31)"

definition store :: "'f buffer \<Rightarrow> nat \<Rightarrow> 'f option \<Rightarrow> fault + 'f buffer" where
  "store data k v = (if k < length data then Inr (data[k := v]) else Inl out_of_bounds)"

definition and_then :: "fault + 'a \<Rightarrow> ('a \<Rightarrow> fault + 'b) \<Rightarrow> fault + 'b" where
  "and_then r f = (case r of Inl e \<Rightarrow> Inl e | Inr v \<Rightarrow> f v)"

text \<open>
  Lines 136 to 146 (A) and 284 to 293 (B): the seven stores for the joint \<open>joint_id\<close> at
  table index \<open>j\<close>. Reading from an uninitialised \<open>skeleton\<close> gives indeterminate values.
\<close>

definition store_joint ::
  "'f k4abt_skeleton_t option \<Rightarrow> nat \<Rightarrow> nat \<Rightarrow> 'f buffer \<Rightarrow> fault + 'f buffer" where
  "store_joint skeleton joint_id j data =
     (let pos = map_option (\<lambda>s. position (joints s joint_id)) skeleton;
          ori = map_option (\<lambda>s. orientation (joints s joint_id)) skeleton
      in and_then (store data (j * 7 + 0) (map_option xyz_x pos)) (\<lambda>data.
         and_then (store data (j * 7 + 1) (map_option xyz_y pos)) (\<lambda>data.
         and_then (store data (j * 7 + 2) (map_option xyz_z pos)) (\<lambda>data.
         and_then (store data (j * 7 + 3) (map_option wxyz_w ori)) (\<lambda>data.
         and_then (store data (j * 7 + 4) (map_option wxyz_x ori)) (\<lambda>data.
         and_then (store data (j * 7 + 5) (map_option wxyz_y ori)) (\<lambda>data.
                   store data (j * 7 + 6) (map_option wxyz_z ori))))))))"

text \<open>
  Pipeline A, lines 131 to 147: the loop over the table; the skeleton of body 0 is
  fetched anew for every joint, and \<open>j\<close> is the distance of the iterator from
  \<open>begin()\<close>.
\<close>

fun extract_A :: "'f k4abt_frame_t \<Rightarrow> jointNames \<Rightarrow> nat \<Rightarrow> 'f buffer \<Rightarrow> fault + 'f buffer" where
  "extract_A body_frame [] j data = Inr data"
| "extract_A body_frame (it # rest) j data =
     (case store_joint (k4abt_frame_get_body_skeleton body_frame 0) (fst it) j data of
        Inl e \<Rightarrow> Inl e
      | Inr data' \<Rightarrow> extract_A body_frame rest (j + 1) data')"

text \<open>
  Pipeline B, lines 276 to 296: the loop over the bodies, and inside it the loop over
  the table with the counter \<open>j\<close> starting at 0.
\<close>

fun joints_loop_B :: "'f k4abt_skeleton_t option \<Rightarrow> jointNames \<Rightarrow> nat \<Rightarrow> 'f buffer \<Rightarrow> fault + 'f buffer" where
  "joints_loop_B skeleton [] j data = Inr data"
| "joints_loop_B skeleton (it # rest) j data =
     (case store_joint skeleton (fst it) j data of
        Inl e \<Rightarrow> Inl e
      | Inr data' \<Rightarrow> joints_loop_B skeleton rest (j + 1) data')"

function extract_B :: "'f k4abt_frame_t \<Rightarrow> jointNames \<Rightarrow> nat \<Rightarrow> 'f buffer \<Rightarrow> fault + 'f buffer" where
  "extract_B body_frame J i data =
     (if i < k4abt_frame_get_num_bodies body_frame
      then (case joints_loop_B (k4abt_frame_get_body_skeleton body_frame i) J 0 data of
              Inl e \<Rightarrow> Inl e
            | Inr data' \<Rightarrow> extract_B body_frame J (i + 1) data')
      else Inr data)"
  by pat_completeness auto
termination
  by (relation "measure (\<lambda>(body_frame, J, i, data). length body_frame - i)")
     (auto simp: k4abt_frame_get_num_bodies_def)

declare extract_B.simps [simp del]

text \<open>The seven values of one joint, in the order of the stores.\<close>

definition pose7 :: "'f k4abt_skeleton_t \<Rightarrow> nat \<Rightarrow> 'f list" where
  "pose7 s joint_id =
     [xyz_x (position (joints s joint_id)), xyz_y (position (joints s joint_id)),
      xyz_z (position (joints s joint_id)), wxyz_w (orientation (joints s joint_id)),
      wxyz_x (orientation (joints s joint_id)), wxyz_y (orientation (joints s joint_id)),
      wxyz_z (orientation (joints s joint_id))]"

subsection \<open>Collaborator calls and what they return\<close>

text \<open>
  The log of a run: one event per call with an effect, with the result the call
  returned where it has one. A \<open>printf\<close> is logged with its format string, without the
  trailing newline and with its arguments not expanded; the \<open>printf\<close> of \<open>VERIFY\<close> and
  the one of line 204, whose format only frames a message, with that message.
\<close>

datatype 'f event =
  k4a_device_open k4a_result_t
| k4a_device_start_cameras k4a_result_t
| k4a_device_get_calibration k4a_result_t
| k4abt_tracker_create k4abt_tracker_processing_mode_t k4a_result_t
| lsl_create_outlet lsl_streaminfo
| lsl_wait_for_consumers bool
| k4a_device_get_capture k4a_wait_result_t
| k4abt_tracker_enqueue_capture k4abt_tracker_t k4a_wait_result_t
| k4a_capture_release
| k4abt_tracker_pop_result k4abt_tracker_t k4a_wait_result_t
| lsl_push_sample_f "'f buffer"
| k4abt_frame_release
| k4abt_tracker_shutdown k4abt_tracker_t
| k4abt_tracker_destroy k4abt_tracker_t
| k4a_device_stop_cameras
| k4a_device_close
| printf string

text \<open>
  What the collaborators return during one iteration of the capture loop. A field is
  read only if the program makes the call.
\<close>

record 'f frame_io =
  get_capture_result :: k4a_wait_result_t
  queue_capture_result :: k4a_wait_result_t
  pop_frame_result :: k4a_wait_result_t
  body_frame :: "'f k4abt_frame_t"

text \<open>
  What the collaborators return before the loop. \<open>consumers_after\<close> is the number
  of polls of \<open>lsl_wait_for_consumers\<close> that return false before one returns true,
  \<open>None\<close> if no consumer ever attaches.
\<close>

record startup_io =
  device_open_result :: k4a_result_t
  start_cameras_result :: k4a_result_t
  get_calibration_result :: k4a_result_t
  tracker_create_result :: "k4abt_tracker_processing_mode_t \<Rightarrow> k4a_result_t"
  consumers_after :: "nat option"

text \<open>How one iteration of the loop body ends, with the events it logged.\<close>

datatype 'f flow =
  Continue "'f event list"
| Break "'f event list"
| Return int "'f event list"
| Fault "'f event list"

subsection \<open>One iteration of the capture loop\<close>

text \<open>Pipeline A, lines 102 to 153.\<close>

definition frame_A :: "k4abt_tracker_t \<Rightarrow> jointNames \<Rightarrow> 'f frame_io \<Rightarrow> 'f flow" where
  "frame_A tracker g_jointNames io =
     (if get_capture_result io = K4A_WAIT_RESULT_SUCCEEDED
      then
        (if queue_capture_result io \<noteq> K4A_WAIT_RESULT_SUCCEEDED
         then Break [k4a_device_get_capture (get_capture_result io),
                     k4abt_tracker_enqueue_capture tracker (queue_capture_result io),
                     k4a_capture_release,
                     printf ''Failed to queue capture for processing.'']
         else if pop_frame_result io = K4A_WAIT_RESULT_SUCCEEDED
         then
           (if k4abt_frame_get_num_bodies (body_frame io) > 1
            then Return (- 1)
                   [k4a_device_get_capture (get_capture_result io),
                    k4abt_tracker_enqueue_capture tracker (queue_capture_result io),
                    k4a_capture_release,
                    k4abt_tracker_pop_result tracker (pop_frame_result io),
                    printf ''Multiple bodies detected (%zu)! Exiting...'']
            else
              (case extract_A (body_frame io) g_jointNames 0 data_decl of
                 Inl e \<Rightarrow>
                   Fault [k4a_device_get_capture (get_capture_result io),
                          k4abt_tracker_enqueue_capture tracker (queue_capture_result io),
                          k4a_capture_release,
                          k4abt_tracker_pop_result tracker (pop_frame_result io)]
               | Inr data \<Rightarrow>
                   Continue [k4a_device_get_capture (get_capture_result io),
                             k4abt_tracker_enqueue_capture tracker (queue_capture_result io),
                             k4a_capture_release,
                             k4abt_tracker_pop_result tracker (pop_frame_result io),
                             lsl_push_sample_f data,
                             k4abt_frame_release]))
         else Continue [k4a_device_get_capture (get_capture_result io),
                        k4abt_tracker_enqueue_capture tracker (queue_capture_result io),
                        k4a_capture_release,
                        k4abt_tracker_pop_result tracker (pop_frame_result io)])
      else Continue [k4a_device_get_capture (get_capture_result io)])"

text \<open>Pipeline B, lines 244 to 322.\<close>

definition frame_B :: "k4abt_tracker_t \<Rightarrow> jointNames \<Rightarrow> 'f frame_io \<Rightarrow> 'f flow" where
  "frame_B tracker g_jointNames io =
     (if get_capture_result io = K4A_WAIT_RESULT_SUCCEEDED
      then
        (if queue_capture_result io = K4A_WAIT_RESULT_TIMEOUT
         then Break [k4a_device_get_capture (get_capture_result io),
                     k4abt_tracker_enqueue_capture tracker (queue_capture_result io),
                     k4a_capture_release,
                     printf ''Error! Add capture to tracker process queue timeout!'']
         else if queue_capture_result io = K4A_WAIT_RESULT_FAILED
         then Break [k4a_device_get_capture (get_capture_result io),
                     k4abt_tracker_enqueue_capture tracker (queue_capture_result io),
                     k4a_capture_release,
                     printf ''Error! Add capture to tracker process queue failed!'']
         else if pop_frame_result io = K4A_WAIT_RESULT_SUCCEEDED
         then
           (if k4abt_frame_get_num_bodies (body_frame io) > 1
            then Return (- 1)
                   [k4a_device_get_capture (get_capture_result io),
                    k4abt_tracker_enqueue_capture tracker (queue_capture_result io),
                    k4a_capture_release,
                    k4abt_tracker_pop_result tracker (pop_frame_result io),
                    printf ''%zu bodies are detected!'']
            else
              (case extract_B (body_frame io) g_jointNames 0 data_decl of
                 Inl e \<Rightarrow>
                   Fault [k4a_device_get_capture (get_capture_result io),
                          k4abt_tracker_enqueue_capture tracker (queue_capture_result io),
                          k4a_capture_release,
                          k4abt_tracker_pop_result tracker (pop_frame_result io)]
               | Inr data \<Rightarrow>
                   Continue [k4a_device_get_capture (get_capture_result io),
                             k4abt_tracker_enqueue_capture tracker (queue_capture_result io),
                             k4a_capture_release,
                             k4abt_tracker_pop_result tracker (pop_frame_result io),
                             lsl_push_sample_f data,
                             k4abt_frame_release]))
         else if pop_frame_result io = K4A_WAIT_RESULT_TIMEOUT
         then Break [k4a_device_get_capture (get_capture_result io),
                     k4abt_tracker_enqueue_capture tracker (queue_capture_result io),
                     k4a_capture_release,
                     k4abt_tracker_pop_result tracker (pop_frame_result io),
                     printf ''Error! Pop body frame result timeout!'']
         else Break [k4a_device_get_capture (get_capture_result io),
                     k4abt_tracker_enqueue_capture tracker (queue_capture_result io),
                     k4a_capture_release,
                     k4abt_tracker_pop_result tracker (pop_frame_result io),
                     printf ''Pop body frame result failed!''])
      else if get_capture_result io = K4A_WAIT_RESULT_TIMEOUT
      then Break [k4a_device_get_capture (get_capture_result io),
                  printf ''Error! Get depth frame time out!'']
      else Break [k4a_device_get_capture (get_capture_result io),
                  printf ''Get depth capture returned error: %d''])"

subsection \<open>The capture loop and what follows it\<close>

text \<open>
  How the loop is left: by its condition or a \<open>break\<close> (the code after the loop runs),
  by \<open>return\<close> from \<open>main\<close>, or by undefined behaviour. \<open>env i\<close> is what the
  collaborators return during iteration \<open>i\<close>; \<open>tr\<close> is the log so far.
\<close>

datatype 'f loop_end =
  Left_loop "'f event list"
| Returned int "'f event list"
| Faulted "'f event list"

text \<open>
  Pipeline A, lines 99 to 154: \<open>do { ... } while (++frame_count < 100)\<close>. The
  recursion ends because \<open>100 - frame_count\<close> decreases.
\<close>

function loop_A ::
  "k4abt_tracker_t \<Rightarrow> jointNames \<Rightarrow> (nat \<Rightarrow> 'f frame_io) \<Rightarrow> nat \<Rightarrow> nat \<Rightarrow> 'f event list
     \<Rightarrow> 'f loop_end" where
  "loop_A tracker J env i frame_count tr =
     (case frame_A tracker J (env i) of
        Continue es \<Rightarrow>
          (if frame_count + 1 < 100
           then loop_A tracker J env (i + 1) (frame_count + 1) (tr @ es)
           else Left_loop (tr @ es))
      | Break es \<Rightarrow> Left_loop (tr @ es)
      | Return c es \<Rightarrow> Returned c (tr @ es)
      | Fault es \<Rightarrow> Faulted (tr @ es))"
  by pat_completeness auto
termination
  by (relation "measure (\<lambda>(tracker, J, env, i, frame_count, tr). 100 - frame_count)") auto

declare loop_A.simps [simp del]

text \<open>
  Pipeline B, lines 241 to 324: \<open>do { ... } while (frame_count < 100)\<close>, where the
  only increment of \<open>frame_count\<close> is commented out (line 248). The loop need not
  end, so the model takes fuel: \<open>None\<close> means the loop is still running when the fuel
  is used up.
\<close>

fun loop_B ::
  "nat \<Rightarrow> k4abt_tracker_t \<Rightarrow> jointNames \<Rightarrow> (nat \<Rightarrow> 'f frame_io) \<Rightarrow> nat \<Rightarrow> nat \<Rightarrow> 'f event list
     \<Rightarrow> 'f loop_end option" where
  "loop_B 0 tracker J env i frame_count tr = None"
| "loop_B (Suc fuel) tracker J env i frame_count tr =
     (case frame_B tracker J (env i) of
        Continue es \<Rightarrow>
          (if frame_count < 100
           then loop_B fuel tracker J env (i + 1) frame_count (tr @ es)
           else Some (Left_loop (tr @ es)))
      | Break es \<Rightarrow> Some (Left_loop (tr @ es))
      | Return c es \<Rightarrow> Some (Returned c (tr @ es))
      | Fault es \<Rightarrow> Some (Faulted (tr @ es)))"

text \<open>
  How the process ends: with an exit status, never (it waits for a consumer for ever),
  or in undefined behaviour; each with the log up to there.
\<close>

datatype 'f outcome =
  Exit int "'f event list"
| Hang "'f event list"
| Crash "'f event list"

text \<open>Lines 156 to 163 (A) and 326 to 333 (B): the code after the loop.\<close>

definition cleanup_A :: "k4abt_tracker_t \<Rightarrow> 'f event list" where
  "cleanup_A tracker =
     [printf ''Body tracking completed.'', k4abt_tracker_shutdown tracker,
      k4abt_tracker_destroy tracker, k4a_device_stop_cameras, k4a_device_close]"

definition cleanup_B :: "k4abt_tracker_t \<Rightarrow> 'f event list" where
  "cleanup_B tracker =
     [printf ''Finished body tracking processing!'', k4abt_tracker_shutdown tracker,
      k4abt_tracker_destroy tracker, k4a_device_stop_cameras, k4a_device_close]"

definition after_loop_A :: "k4abt_tracker_t \<Rightarrow> 'f loop_end \<Rightarrow> 'f outcome" where
  "after_loop_A tracker r =
     (case r of
        Left_loop tr \<Rightarrow> Exit 0 (tr @ cleanup_A tracker)
      | Returned c tr \<Rightarrow> Exit c tr
      | Faulted tr \<Rightarrow> Crash tr)"

definition after_loop_B :: "k4abt_tracker_t \<Rightarrow> 'f loop_end \<Rightarrow> 'f outcome" where
  "after_loop_B tracker r =
     (case r of
        Left_loop tr \<Rightarrow> Exit 0 (tr @ cleanup_B tracker)
      | Returned c tr \<Rightarrow> Exit c tr
      | Faulted tr \<Rightarrow> Crash tr)"

text \<open>
  The rest of a run from the start of iteration \<open>i\<close>, with \<open>frame_count\<close> and the log
  \<open>tr\<close> as they are at that point.
\<close>

definition session_A ::
  "k4abt_tracker_t \<Rightarrow> jointNames \<Rightarrow> (nat \<Rightarrow> 'f frame_io) \<Rightarrow> nat \<Rightarrow> nat \<Rightarrow> 'f event list
     \<Rightarrow> 'f outcome" where
  "session_A tracker J env i frame_count tr =
     after_loop_A tracker (loop_A tracker J env i frame_count tr)"

definition session_B ::
  "nat \<Rightarrow> k4abt_tracker_t \<Rightarrow> jointNames \<Rightarrow> (nat \<Rightarrow> 'f frame_io) \<Rightarrow> nat \<Rightarrow> nat \<Rightarrow> 'f event list
     \<Rightarrow> 'f outcome option" where
  "session_B fuel tracker J env i frame_count tr =
     map_option (after_loop_B tracker) (loop_B fuel tracker J env i frame_count tr)"

subsection \<open>The programs\<close>

text \<open>Lines 67 to 99 (A): describe the stream, create the outlet, wait, run the loop.\<close>

definition publish_A ::
  "k4abt_tracker_t \<Rightarrow> bool \<Rightarrow> jointNames \<Rightarrow> startup_io \<Rightarrow> (nat \<Rightarrow> 'f frame_io) \<Rightarrow> 'f event list
     \<Rightarrow> 'f outcome" where
  "publish_A tracker fallback J s env tr =
     (case consumers_after s of
        None \<Rightarrow>
          Hang (tr @ [lsl_create_outlet (describe_A J (create_info fallback)),
                      printf ''Waiting for LSL recorder...''])
      | Some n \<Rightarrow>
          session_A tracker J env 0 0
            (tr @ [lsl_create_outlet (describe_A J (create_info fallback)),
                   printf ''Waiting for LSL recorder...'']
                @ replicate n (lsl_wait_for_consumers False)
                @ [lsl_wait_for_consumers True,
                   printf ''Recorder connected. Now sending data...'']))"

text \<open>Pipeline A, lines 26 to 164. \<open>VERIFY\<close> prints and calls \<open>exit(1)\<close>.\<close>

definition main_A :: "jointNames \<Rightarrow> startup_io \<Rightarrow> (nat \<Rightarrow> 'f frame_io) \<Rightarrow> 'f outcome" where
  "main_A J s env =
     (if device_open_result s \<noteq> K4A_RESULT_SUCCEEDED
      then Exit 1 [k4a_device_open (device_open_result s),
                   printf ''Failed to open Azure Kinect device!'']
      else if start_cameras_result s \<noteq> K4A_RESULT_SUCCEEDED
      then Exit 1 [k4a_device_open (device_open_result s),
                   k4a_device_start_cameras (start_cameras_result s),
                   printf ''Failed to start cameras on Azure Kinect!'']
      else if get_calibration_result s \<noteq> K4A_RESULT_SUCCEEDED
      then Exit 1 [k4a_device_open (device_open_result s),
                   k4a_device_start_cameras (start_cameras_result s),
                   k4a_device_get_calibration (get_calibration_result s),
                   printf ''Failed to retrieve calibration data!'']
      else if tracker_create_result s K4ABT_TRACKER_PROCESSING_MODE_GPU_CUDA
                \<noteq> K4A_RESULT_SUCCEEDED
      then
        (if tracker_create_result s K4ABT_TRACKER_PROCESSING_MODE_CPU \<noteq> K4A_RESULT_SUCCEEDED
         then Exit 1
                [k4a_device_open (device_open_result s),
                 k4a_device_start_cameras (start_cameras_result s),
                 k4a_device_get_calibration (get_calibration_result s),
                 k4abt_tracker_create K4ABT_TRACKER_PROCESSING_MODE_GPU_CUDA
                   (tracker_create_result s K4ABT_TRACKER_PROCESSING_MODE_GPU_CUDA),
                 printf ''CUDA tracker initialization failed! Falling back to standard mode.'',
                 k4abt_tracker_create K4ABT_TRACKER_PROCESSING_MODE_CPU
                   (tracker_create_result s K4ABT_TRACKER_PROCESSING_MODE_CPU),
                 printf ''Failed to initialize body tracker!'']
         else publish_A (tracker_handle K4ABT_TRACKER_PROCESSING_MODE_CPU) True J s env
                [k4a_device_open (device_open_result s),
                 k4a_device_start_cameras (start_cameras_result s),
                 k4a_device_get_calibration (get_calibration_result s),
                 k4abt_tracker_create K4ABT_TRACKER_PROCESSING_MODE_GPU_CUDA
                   (tracker_create_result s K4ABT_TRACKER_PROCESSING_MODE_GPU_CUDA),
                 printf ''CUDA tracker initialization failed! Falling back to standard mode.'',
                 k4abt_tracker_create K4ABT_TRACKER_PROCESSING_MODE_CPU
                   (tracker_create_result s K4ABT_TRACKER_PROCESSING_MODE_CPU)])
      else publish_A (tracker_handle K4ABT_TRACKER_PROCESSING_MODE_GPU_CUDA) False J s env
             [k4a_device_open (device_open_result s),
              k4a_device_start_cameras (start_cameras_result s),
              k4a_device_get_calibration (get_calibration_result s),
              k4abt_tracker_create K4ABT_TRACKER_PROCESSING_MODE_GPU_CUDA
                (tracker_create_result s K4ABT_TRACKER_PROCESSING_MODE_GPU_CUDA),
              printf ''CUDA tracker initialized successfully.''])"

text \<open>
  Lines 220 to 241 (B). The loop \<open>do printf(...); while (!lsl_wait_for_consumers(...))\<close>
  prints before every poll.
\<close>

definition publish_B ::
  "nat \<Rightarrow> k4abt_tracker_t \<Rightarrow> bool \<Rightarrow> jointNames \<Rightarrow> startup_io \<Rightarrow> (nat \<Rightarrow> 'f frame_io)
     \<Rightarrow> 'f event list \<Rightarrow> 'f outcome option" where
  "publish_B fuel tracker fallback J s env tr =
     (case consumers_after s of
        None \<Rightarrow> Some (Hang (tr @ [lsl_create_outlet (describe_B J (create_info fallback))]))
      | Some n \<Rightarrow>
          session_B fuel tracker J env 0 0
            (tr @ [lsl_create_outlet (describe_B J (create_info fallback))]
                @ concat (replicate n [printf ''Waiting for recorder'',
                                       lsl_wait_for_consumers False])
                @ [printf ''Waiting for recorder'', lsl_wait_for_consumers True,
                   printf ''Now sending data...'']))"

text \<open>
  Pipeline B, lines 179 to 334. In the fallback branch (lines 204 to 209) a new local
  \<open>tracker\<close> shadows the outer one, the configuration is the default one, and the
  result of the second \<open>k4abt_tracker_create\<close> is not looked at: the outer \<open>tracker\<close>,
  which the loop and the cleanup use, is still \<open>NULL\<close>.
\<close>

definition main_B ::
  "nat \<Rightarrow> jointNames \<Rightarrow> startup_io \<Rightarrow> (nat \<Rightarrow> 'f frame_io) \<Rightarrow> 'f outcome option" where
  "main_B fuel J s env =
     (if device_open_result s \<noteq> K4A_RESULT_SUCCEEDED
      then Some (Exit 1 [k4a_device_open (device_open_result s),
                         printf ''Open K4A Device failed!''])
      else if start_cameras_result s \<noteq> K4A_RESULT_SUCCEEDED
      then Some (Exit 1 [k4a_device_open (device_open_result s),
                         k4a_device_start_cameras (start_cameras_result s),
                         printf ''Start K4A cameras failed!''])
      else if get_calibration_result s \<noteq> K4A_RESULT_SUCCEEDED
      then Some (Exit 1 [k4a_device_open (device_open_result s),
                         k4a_device_start_cameras (start_cameras_result s),
                         k4a_device_get_calibration (get_calibration_result s),
                         printf ''Get depth camera calibration failed!''])
      else if tracker_create_result s K4ABT_TRACKER_PROCESSING_MODE_GPU_CUDA
                \<noteq> K4A_RESULT_SUCCEEDED
      then publish_B fuel NULL True J s env
             [k4a_device_open (device_open_result s),
              k4a_device_start_cameras (start_cameras_result s),
              k4a_device_get_calibration (get_calibration_result s),
              k4abt_tracker_create K4ABT_TRACKER_PROCESSING_MODE_GPU_CUDA
                (tracker_create_result s K4ABT_TRACKER_PROCESSING_MODE_GPU_CUDA),
              printf ''Body tracker initialization failed!'',
              k4abt_tracker_create K4ABT_TRACKER_CONFIG_DEFAULT
                (tracker_create_result s K4ABT_TRACKER_CONFIG_DEFAULT),
              printf ''Running tracker is standard (slow) mode'']
      else publish_B fuel (tracker_handle K4ABT_TRACKER_PROCESSING_MODE_GPU_CUDA) False J s env
             [k4a_device_open (device_open_result s),
              k4a_device_start_cameras (start_cameras_result s),
              k4a_device_get_calibration (get_calibration_result s),
              k4abt_tracker_create K4ABT_TRACKER_PROCESSING_MODE_GPU_CUDA
                (tracker_create_result s K4ABT_TRACKER_PROCESSING_MODE_GPU_CUDA),
              printf ''Running tracker is CUDA mode''])"

subsection \<open>Reading a log\<close>

text \<open>The samples pushed to the outlet, in order.\<close>

fun pushes :: "'f event list \<Rightarrow> 'f buffer list" where
  "pushes [] = []"
| "pushes (lsl_push_sample_f data # es) = data # pushes es"
| "pushes (e # es) = pushes es"

text \<open>The streams for which an outlet was created, in order.\<close>

fun outlets :: "'f event list \<Rightarrow> lsl_streaminfo list" where
  "outlets [] = []"
| "outlets (lsl_create_outlet info # es) = info # outlets es"
| "outlets (e # es) = outlets es"

text \<open>
  The value type of each push in a log: \<open>lsl_push_sample_f\<close>, the only push the
  programs call, takes a pointer to 32-bit floats.
\<close>

fun push_formats :: "'f event list \<Rightarrow> lsl_channel_format_t list" where
  "push_formats [] = []"
| "push_formats (lsl_push_sample_f data # es) = cft_float32 # push_formats es"
| "push_formats (e # es) = push_formats es"

text \<open>Calls of \<open>k4a_device_get_capture\<close>, whatever they return.\<close>

fun capture_calls :: "'f event list \<Rightarrow> nat" where
  "capture_calls [] = 0"
| "capture_calls (k4a_device_get_capture r # es) = 1 + capture_calls es"
| "capture_calls (e # es) = capture_calls es"

text \<open>Captures and tracking results acquired (a successful call) and released.\<close>

fun captures_acquired :: "'f event list \<Rightarrow> nat" where
  "captures_acquired [] = 0"
| "captures_acquired (k4a_device_get_capture r # es) =
     (if r = K4A_WAIT_RESULT_SUCCEEDED then 1 else 0) + captures_acquired es"
| "captures_acquired (e # es) = captures_acquired es"

fun captures_released :: "'f event list \<Rightarrow> nat" where
  "captures_released [] = 0"
| "captures_released (k4a_capture_release # es) = 1 + captures_released es"
| "captures_released (e # es) = captures_released es"

fun results_acquired :: "'f event list \<Rightarrow> nat" where
  "results_acquired [] = 0"
| "results_acquired (k4abt_tracker_pop_result tracker r # es) =
     (if r = K4A_WAIT_RESULT_SUCCEEDED then 1 else 0) + results_acquired es"
| "results_acquired (e # es) = results_acquired es"

fun results_released :: "'f event list \<Rightarrow> nat" where
  "results_released [] = 0"
| "results_released (k4abt_frame_release # es) = 1 + results_released es"
| "results_released (e # es) = results_released es"

fun flow_log :: "'f flow \<Rightarrow> 'f event list" where
  "flow_log (Continue es) = es"
| "flow_log (Break es) = es"
| "flow_log (Return c es) = es"
| "flow_log (Fault es) = es"

fun end_log :: "'f loop_end \<Rightarrow> 'f event list" where
  "end_log (Left_loop tr) = tr"
| "end_log (Returned c tr) = tr"
| "end_log (Faulted tr) = tr"

fun outcome_log :: "'f outcome \<Rightarrow> 'f event list" where
  "outcome_log (Exit c tr) = tr"
| "outcome_log (Hang tr) = tr"
| "outcome_log (Crash tr) = tr"

text \<open>
  The seven cells the stores of \<open>store_joint\<close> leave at offsets \<open>7 * j\<close> to
  \<open>7 * j + 6\<close>: the values of the joint, or indeterminate ones without a skeleton.
\<close>

definition cells :: "'f k4abt_skeleton_t option \<Rightarrow> nat \<Rightarrow> 'f option list" where
  "cells skeleton joint_id =
     (case skeleton of
        None \<Rightarrow> replicate 7 None
      | Some s \<Rightarrow> map Some (pose7 s joint_id))"

text \<open>
  The buffer the specification asks for after an extraction from \<open>skeleton\<close>: the
  cells of the joints in table order, then the cells no store reached.
\<close>

definition pose_vector :: "'f k4abt_skeleton_t option \<Rightarrow> jointNames \<Rightarrow> 'f buffer" where
  "pose_vector skeleton J =
     concat (map (\<lambda>it. cells skeleton (fst it)) J) @ uninitialised (7 * 31 - 7 * length J)"

subsection \<open>Concrete inputs\<close>

text \<open>A table of two joints, and one of 32: the size the channel count 32 * 7 stands for.\<close>

definition table2 :: jointNames where
  "table2 = [(0, ''PELVIS''), (1, ''SPINE_NAVEL'')]"

definition table32 :: jointNames where
  "table32 = map (\<lambda>k. (k, ''JOINT'')) [0..<32]"

definition skeleton1 :: "int k4abt_skeleton_t" where
  "skeleton1 =
     \<lparr>joints = (\<lambda>k.
        \<lparr>position = \<lparr>xyz_x = 10 * int k + 1, xyz_y = 10 * int k + 2, xyz_z = 10 * int k + 3\<rparr>,
         orientation = \<lparr>wxyz_w = 10 * int k + 4, wxyz_x = 10 * int k + 5,
                        wxyz_y = 10 * int k + 6, wxyz_z = 10 * int k + 7\<rparr>\<rparr>)\<rparr>"

text \<open>Every call of the iteration succeeds and the tracking result holds the bodies given.\<close>

definition io_tracked :: "'f k4abt_frame_t \<Rightarrow> 'f frame_io" where
  "io_tracked bodies =
     \<lparr>get_capture_result = K4A_WAIT_RESULT_SUCCEEDED,
      queue_capture_result = K4A_WAIT_RESULT_SUCCEEDED,
      pop_frame_result = K4A_WAIT_RESULT_SUCCEEDED,
      body_frame = bodies\<rparr>"

definition io_capture_failed :: "int frame_io" where
  "io_capture_failed = (io_tracked [])\<lparr>get_capture_result := K4A_WAIT_RESULT_FAILED\<rparr>"

definition io_queue_failed :: "int frame_io" where
  "io_queue_failed = (io_tracked [])\<lparr>queue_capture_result := K4A_WAIT_RESULT_FAILED\<rparr>"

definition io_pop_failed :: "int frame_io" where
  "io_pop_failed = (io_tracked [])\<lparr>pop_frame_result := K4A_WAIT_RESULT_FAILED\<rparr>"

definition env_one_body :: "nat \<Rightarrow> int frame_io" where
  "env_one_body i = io_tracked [skeleton1]"

definition env_no_body :: "nat \<Rightarrow> int frame_io" where
  "env_no_body i = io_tracked []"

definition env_two_bodies :: "nat \<Rightarrow> int frame_io" where
  "env_two_bodies i = io_tracked [skeleton1, skeleton1]"

definition env_capture_failed :: "nat \<Rightarrow> int frame_io" where
  "env_capture_failed i = io_capture_failed"

definition env_queue_failed :: "nat \<Rightarrow> int frame_io" where
  "env_queue_failed i = io_queue_failed"

definition env_pop_failed :: "nat \<Rightarrow> int frame_io" where
  "env_pop_failed i = io_pop_failed"

definition env_one_then_two :: "nat \<Rightarrow> int frame_io" where
  "env_one_then_two i = (if i = 0 then io_tracked [skeleton1] else io_tracked [skeleton1, skeleton1])"

text \<open>
  Startups: everything succeeds; only the CUDA tracker fails; every tracker creation
  fails. A consumer is there at the first poll.
\<close>

definition startup_cuda :: startup_io where
  "startup_cuda =
     \<lparr>device_open_result = K4A_RESULT_SUCCEEDED,
      start_cameras_result = K4A_RESULT_SUCCEEDED,
      get_calibration_result = K4A_RESULT_SUCCEEDED,
      tracker_create_result = (\<lambda>mode. K4A_RESULT_SUCCEEDED),
      consumers_after = Some 0\<rparr>"

definition startup_no_cuda :: startup_io where
  "startup_no_cuda =
     startup_cuda\<lparr>tracker_create_result :=
       (\<lambda>mode. if mode = K4ABT_TRACKER_PROCESSING_MODE_GPU_CUDA
               then K4A_RESULT_FAILED else K4A_RESULT_SUCCEEDED)\<rparr>"

definition startup_no_tracker :: startup_io where
  "startup_no_tracker = startup_cuda\<lparr>tracker_create_result := (\<lambda>mode. K4A_RESULT_FAILED)\<rparr>"

section \<open>Properties\<close>

subsection \<open>The extractor\<close>

lemma length_cells: "length (cells sk jid) = 7"
  by (simp add: cells_def pose7_def split: option.splits)

lemma update7:
  assumes "k + 7 \<le> length data" and "length c = 7"
  shows "data[k := c ! 0, k + 1 := c ! 1, k + 2 := c ! 2, k + 3 := c ! 3, k + 4 := c ! 4,
              k + 5 := c ! 5, k + 6 := c ! 6]
           = take k data @ c @ drop (k + 7) data"
proof (rule nth_equalityI)
  show "length (data[k := c ! 0, k + 1 := c ! 1, k + 2 := c ! 2, k + 3 := c ! 3,
                     k + 4 := c ! 4, k + 5 := c ! 5, k + 6 := c ! 6])
          = length (take k data @ c @ drop (k + 7) data)"
    using assms by simp
next
  fix i
  assume "i < length (data[k := c ! 0, k + 1 := c ! 1, k + 2 := c ! 2, k + 3 := c ! 3,
                           k + 4 := c ! 4, k + 5 := c ! 5, k + 6 := c ! 6])"
  then have i: "i < length data" by simp
  consider "i < k" | "i = k" | "i = k + 1" | "i = k + 2" | "i = k + 3" | "i = k + 4"
    | "i = k + 5" | "i = k + 6" | "k + 7 \<le> i"
    by linarith
  then show "data[k := c ! 0, k + 1 := c ! 1, k + 2 := c ! 2, k + 3 := c ! 3, k + 4 := c ! 4,
                  k + 5 := c ! 5, k + 6 := c ! 6] ! i
               = (take k data @ c @ drop (k + 7) data) ! i"
  proof cases
    case 1 then show ?thesis using assms i by (simp add: nth_append)
  next
    case 2 then show ?thesis using assms i by (simp add: nth_append)
  next
    case 3 then show ?thesis using assms i by (simp add: nth_append)
  next
    case 4 then show ?thesis using assms i by (simp add: nth_append)
  next
    case 5 then show ?thesis using assms i by (simp add: nth_append)
  next
    case 6 then show ?thesis using assms i by (simp add: nth_append)
  next
    case 7 then show ?thesis using assms i by (simp add: nth_append)
  next
    case 8 then show ?thesis using assms i by (simp add: nth_append)
  next
    case 9 
    then have "\<not> i < k" "\<not> i - k < 7" "k + 7 + (i - k - 7) = i"
      "i \<noteq> k" "i \<noteq> k + 1" "i \<noteq> k + 2" "i \<noteq> k + 3" "i \<noteq> k + 4" "i \<noteq> k + 5" "i \<noteq> k + 6"
      by simp_all
    then show ?thesis using assms i by (simp add: nth_append)
  qed
qed

lemma store_joint_fits:
  assumes "j * 7 + 7 \<le> length data"
  shows "store_joint sk jid j data
           = Inr (take (j * 7) data @ cells sk jid @ drop (j * 7 + 7) data)"
proof -
  have "store_joint sk jid j data = Inr (data[j * 7 := cells sk jid ! 0, j * 7 + 1 := cells sk jid ! 1,
     j * 7 + 2 := cells sk jid ! 2, j * 7 + 3 := cells sk jid ! 3, j * 7 + 4 := cells sk jid ! 4,
     j * 7 + 5 := cells sk jid ! 5, j * 7 + 6 := cells sk jid ! 6])"
    using assms by (simp add: store_joint_def store_def and_then_def cells_def pose7_def Let_def split: option.splits)
  then show ?thesis
    using update7 [of "j * 7" data "cells sk jid"] assms by (simp add: length_cells)
qed

lemma store_joint_overrun:
  assumes "length data < j * 7 + 7"
  shows "store_joint sk jid j data = Inl out_of_bounds"
  using assms by (simp add: store_joint_def store_def and_then_def Let_def)

lemma joints_loop_B_fits:
  "(j + length J) * 7 \<le> length data \<Longrightarrow>
   joints_loop_B sk J j data
     = Inr (take (j * 7) data @ concat (map (\<lambda>it. cells sk (fst it)) J)
              @ drop ((j + length J) * 7) data)"
proof (induction J arbitrary: j data)
  case Nil
  then show ?case by simp
next
  case (Cons it rest)
  let ?d = "take (j * 7) data @ cells sk (fst it) @ drop (j * 7 + 7) data"
  from Cons.prems have fit: "j * 7 + 7 \<le> length data" by simp
  then have len: "length ?d = length data" by (simp add: length_cells)
  have step: "store_joint sk (fst it) j data = Inr ?d"
    using fit by (rule store_joint_fits)
  have "(j + 1 + length rest) * 7 \<le> length ?d"
    using Cons.prems len by simp
  then have "joints_loop_B sk rest (j + 1) ?d
      = Inr (take ((j + 1) * 7) ?d @ concat (map (\<lambda>it. cells sk (fst it)) rest)
               @ drop ((j + 1 + length rest) * 7) ?d)"
    by (rule Cons.IH)
  moreover have "take ((j + 1) * 7) ?d = take (j * 7) data @ cells sk (fst it)"
    using fit by (simp add: length_cells)
  moreover have "drop ((j + 1 + length rest) * 7) ?d = drop ((j + length (it # rest)) * 7) data"
  proof -
    have "(j + 1 + length rest) * 7 = j * 7 + 7 + length rest * 7" by simp
    moreover have "(j + length (it # rest)) * 7 = j * 7 + 7 + length rest * 7" by simp
    ultimately show ?thesis using fit by (simp add: length_cells add_ac)
  qed
  ultimately show ?case
    using step by simp
qed

lemma joints_loop_B_overrun:
  "j * 7 \<le> length data \<Longrightarrow> length data < (j + length J) * 7 \<Longrightarrow>
   joints_loop_B sk J j data = Inl out_of_bounds"
proof (induction J arbitrary: j data)
  case Nil
  then show ?case by simp
next
  case (Cons it rest)
  show ?case
  proof (cases "j * 7 + 7 \<le> length data")
    case True
    let ?d = "take (j * 7) data @ cells sk (fst it) @ drop (j * 7 + 7) data"
    have len: "length ?d = length data" using True by (simp add: length_cells)
    have "joints_loop_B sk rest (j + 1) ?d = Inl out_of_bounds"
      using Cons.prems len True by (intro Cons.IH) simp_all
    then show ?thesis using store_joint_fits [OF True, of sk "fst it"] by simp
  next
    case False
    then show ?thesis by (simp add: store_joint_overrun)
  qed
qed

lemma extract_A_joints_loop:
  "extract_A frame J j data
     = joints_loop_B (k4abt_frame_get_body_skeleton frame 0) J j data"
  by (induction J arbitrary: j data) (auto split: sum.splits)

lemma extract_B_one_body:
  "extract_B [s] J 0 data = joints_loop_B (Some s) J 0 data"
proof -
  have stop: "extract_B [s] J (Suc 0) d = Inr d" for d
    by (subst extract_B.simps) (simp add: k4abt_frame_get_num_bodies_def)
  show ?thesis
    by (subst extract_B.simps)
       (simp add: stop k4abt_frame_get_num_bodies_def k4abt_frame_get_body_skeleton_def
          split: sum.splits)
qed

lemma extract_B_no_body:
  "extract_B [] J 0 data = Inr data"
  by (subst extract_B.simps) (simp add: k4abt_frame_get_num_bodies_def)

lemma joints_loop_B_data_decl:
  assumes "length J \<le> 31"
  shows "joints_loop_B sk J 0 data_decl = Inr (pose_vector sk J)"
proof -
  have "(0 + length J) * 7 \<le> length (data_decl :: 'a buffer)"
    using assms by (simp add: uninitialised_def)
  then have "joints_loop_B sk J 0 data_decl
      = Inr (take (0 * 7) data_decl @ concat (map (\<lambda>it. cells sk (fst it)) J)
               @ drop ((0 + length J) * 7) data_decl)"
    by (rule joints_loop_B_fits)
  then show ?thesis
    by (simp add: pose_vector_def uninitialised_def mult.commute)
qed

lemma joints_loop_B_data_decl_overrun:
  assumes "31 < length J"
  shows "joints_loop_B sk J 0 data_decl = Inl out_of_bounds"
  using assms by (intro joints_loop_B_overrun) (simp_all add: uninitialised_def)

lemma extract_A_fits:
  "length J \<le> 31 \<Longrightarrow>
   extract_A frame J 0 data_decl = Inr (pose_vector (k4abt_frame_get_body_skeleton frame 0) J)"
  using joints_loop_B_data_decl [of J] by (simp add: extract_A_joints_loop)

lemma extract_A_overrun:
  "31 < length J \<Longrightarrow> extract_A frame J 0 data_decl = Inl out_of_bounds"
  using joints_loop_B_data_decl_overrun [of J] by (simp add: extract_A_joints_loop)

lemma extract_B_fits:
  "length J \<le> 31 \<Longrightarrow> extract_B [s] J 0 data_decl = Inr (pose_vector (Some s) J)"
  unfolding extract_B_one_body by (rule joints_loop_B_data_decl)

lemma extract_B_overrun:
  "31 < length J \<Longrightarrow> extract_B [s] J 0 data_decl = Inl out_of_bounds"
  unfolding extract_B_one_body by (rule joints_loop_B_data_decl_overrun)

lemma pose_vector_None:
  "length J \<le> 31 \<Longrightarrow> pose_vector None J = data_decl"
proof -
  assume a: "length J \<le> 31"
  have "concat (map (\<lambda>it. cells None (fst it)) J) = (replicate (7 * length J) None :: 'a buffer)"
    by (induction J) (simp_all add: cells_def replicate_add [symmetric] del: replicate.simps)
  then show ?thesis using a
    by (simp add: pose_vector_def uninitialised_def replicate_add [symmetric])
qed

lemma length_pose_vector: "length J \<le> 31 \<Longrightarrow> length (pose_vector sk J) = 217"
  by (simp add: pose_vector_def uninitialised_def length_concat comp_def length_cells sum_list_triv)

lemma length_pose7: "length (pose7 s jid) = 7"
  by (simp add: pose7_def)

lemma pose_vector_slot:
  assumes "j < length J" and "k < 7"
  shows "pose_vector (Some s) J ! (7 * j + k) = Some (pose7 s (fst (J ! j)) ! k)"
proof -
  have "concat (map (\<lambda>it. cells (Some s) (fst it)) J) ! (7 * j + k)
          = Some (pose7 s (fst (J ! j)) ! k)"
    using assms
  proof (induction J arbitrary: j)
    case Nil
    then show ?case by simp
  next
    case (Cons it rest)
    show ?case
    proof (cases j)
      case 0
      then show ?thesis using Cons.prems
        by (simp add: nth_append length_cells) (simp add: cells_def length_pose7)
    next
      case (Suc j')
      then have "7 * j + k = 7 + (7 * j' + k)" by simp
      then show ?thesis using Cons.prems Suc Cons.IH [of j']
        by (simp add: nth_append length_cells)
    qed
  qed
  moreover have "7 * j + k < length (concat (map (\<lambda>it. cells (Some s) (fst it)) J))"
    using assms by (simp add: length_concat comp_def length_cells sum_list_triv)
  ultimately show ?thesis
    by (simp add: pose_vector_def nth_append)
qed

lemma extract_B_at_most_one:
  assumes "length frame \<le> 1" and "length J \<le> 31"
  shows "extract_B frame J 0 data_decl = Inr (pose_vector (k4abt_frame_get_body_skeleton frame 0) J)"
proof (cases frame)
  case Nil
  then show ?thesis
    by (simp add: extract_B_no_body k4abt_frame_get_body_skeleton_def
        pose_vector_None [OF assms(2)])
next
  case (Cons s rest)
  then have "frame = [s]" using assms by simp
  then show ?thesis using assms extract_B_fits [of J s]
    by (simp add: k4abt_frame_get_body_skeleton_def)
qed

lemma length_table32: "length table32 = 32"
  by (simp add: table32_def)

lemma extractor_layout:
  assumes "length J \<le> 31" and "j < length J" and "k < 7"
  shows "extract_A [s] J 0 data_decl = Inr (pose_vector (Some s) J)
         \<and> extract_B [s] J 0 data_decl = Inr (pose_vector (Some s) J)
         \<and> pose_vector (Some s) J ! (7 * j + k) = Some (pose7 s (fst (J ! j)) ! k)
         \<and> length (pose_vector (Some s) J) = 7 * 31"
  using assms extract_A_fits [of J "[s]"] extract_B_fits [of J s]
    pose_vector_slot [of j J k s] length_pose_vector [of J "Some s"]
  by (simp add: k4abt_frame_get_body_skeleton_def)

subsection \<open>The stream descriptor\<close>

lemma append_suffixes_A_eq:
  "append_suffixes_A chns nm sfx
     = chns @ map (\<lambda>suffix. child ''channel''
                      [child_value ''name'' (nm @ suffix), child_value ''unit'' ''mm'']) sfx"
  by (induction sfx arbitrary: chns) simp_all

lemma append_channels_A_eq:
  "append_channels_A chns J
     = chns @ concat (map (\<lambda>it. map (\<lambda>suffix. child ''channel''
                      [child_value ''name'' (snd it @ suffix), child_value ''unit'' ''mm''])
                    suffixes) J)"
  by (induction J arbitrary: chns) (simp_all add: append_suffixes_A_eq)

lemma append_channels_B_eq:
  "append_channels_B chns J
     = chns @ concat (map (\<lambda>it. map (\<lambda>suffix. child (snd it @ suffix) []) suffixes) J)"
  by (induction J arbitrary: chns) (simp_all add: suffixes_def)

lemma labels_A: "channel_labels_A (describe_A J (create_info fb)) = expected_labels J"
  by (simp add: channel_labels_A_def describe_A_def create_info_def lsl_create_streaminfo_def
      append_channels_A_eq expected_labels_def map_concat comp_def)

lemma labels_B: "channel_labels_B (describe_B J (create_info fb)) = expected_labels J"
  by (simp add: channel_labels_B_def describe_B_def create_info_def lsl_create_streaminfo_def
      append_channels_B_eq expected_labels_def map_concat comp_def)

lemma length_expected_labels: "length (expected_labels J) = 7 * length J"
  by (induction J) (simp_all add: expected_labels_def suffixes_def)

lemma channel_count_A: "channel_count (describe_A J (create_info fb)) = 224"
  by (simp add: describe_A_def create_info_def lsl_create_streaminfo_def)

lemma channel_count_B: "channel_count (describe_B J (create_info fb)) = 224"
  by (simp add: describe_B_def create_info_def lsl_create_streaminfo_def)

lemma channel_format_A: "channel_format (describe_A J (create_info fb)) = cft_double64"
  by (simp add: describe_A_def create_info_def lsl_create_streaminfo_def)

lemma channel_format_B: "channel_format (describe_B J (create_info fb)) = cft_double64"
  by (simp add: describe_B_def create_info_def lsl_create_streaminfo_def)

subsection \<open>Logs\<close>

lemma pushes_append: "pushes (xs @ ys) = pushes xs @ pushes ys"
  by (induction xs rule: pushes.induct) simp_all

lemma outlets_append: "outlets (xs @ ys) = outlets xs @ outlets ys"
  by (induction xs rule: outlets.induct) simp_all

lemma push_formats_append: "push_formats (xs @ ys) = push_formats xs @ push_formats ys"
  by (induction xs rule: push_formats.induct) simp_all

lemma capture_calls_append: "capture_calls (xs @ ys) = capture_calls xs + capture_calls ys"
  by (induction xs rule: capture_calls.induct) simp_all

lemma push_formats_float32: "set (push_formats es) \<subseteq> {cft_float32}"
  by (induction es rule: push_formats.induct) simp_all

subsection \<open>One iteration\<close>

lemma frame_A_multi:
  assumes "get_capture_result io = K4A_WAIT_RESULT_SUCCEEDED"
    and "queue_capture_result io = K4A_WAIT_RESULT_SUCCEEDED"
    and "pop_frame_result io = K4A_WAIT_RESULT_SUCCEEDED"
    and "1 < k4abt_frame_get_num_bodies (body_frame io)"
  shows "frame_A t J io = Return (- 1)
           [k4a_device_get_capture K4A_WAIT_RESULT_SUCCEEDED,
            k4abt_tracker_enqueue_capture t K4A_WAIT_RESULT_SUCCEEDED,
            k4a_capture_release,
            k4abt_tracker_pop_result t K4A_WAIT_RESULT_SUCCEEDED,
            printf ''Multiple bodies detected (%zu)! Exiting...'']"
  using assms by (simp add: frame_A_def)

lemma frame_B_multi:
  assumes "get_capture_result io = K4A_WAIT_RESULT_SUCCEEDED"
    and "queue_capture_result io = K4A_WAIT_RESULT_SUCCEEDED"
    and "pop_frame_result io = K4A_WAIT_RESULT_SUCCEEDED"
    and "1 < k4abt_frame_get_num_bodies (body_frame io)"
  shows "frame_B t J io = Return (- 1)
           [k4a_device_get_capture K4A_WAIT_RESULT_SUCCEEDED,
            k4abt_tracker_enqueue_capture t K4A_WAIT_RESULT_SUCCEEDED,
            k4a_capture_release,
            k4abt_tracker_pop_result t K4A_WAIT_RESULT_SUCCEEDED,
            printf ''%zu bodies are detected!'']"
  using assms by (simp add: frame_B_def)

lemma frame_A_tracked:
  assumes "get_capture_result io = K4A_WAIT_RESULT_SUCCEEDED"
    and "queue_capture_result io = K4A_WAIT_RESULT_SUCCEEDED"
    and "pop_frame_result io = K4A_WAIT_RESULT_SUCCEEDED"
    and "k4abt_frame_get_num_bodies (body_frame io) \<le> 1"
    and "length J \<le> 31"
  shows "frame_A t J io = Continue
           [k4a_device_get_capture K4A_WAIT_RESULT_SUCCEEDED,
            k4abt_tracker_enqueue_capture t K4A_WAIT_RESULT_SUCCEEDED,
            k4a_capture_release,
            k4abt_tracker_pop_result t K4A_WAIT_RESULT_SUCCEEDED,
            lsl_push_sample_f (pose_vector (k4abt_frame_get_body_skeleton (body_frame io) 0) J),
            k4abt_frame_release]"
  using assms extract_A_fits [of J "body_frame io"] by (simp add: frame_A_def)

lemma frame_B_tracked:
  assumes "get_capture_result io = K4A_WAIT_RESULT_SUCCEEDED"
    and "queue_capture_result io = K4A_WAIT_RESULT_SUCCEEDED"
    and "pop_frame_result io = K4A_WAIT_RESULT_SUCCEEDED"
    and "k4abt_frame_get_num_bodies (body_frame io) \<le> 1"
    and "length J \<le> 31"
  shows "frame_B t J io = Continue
           [k4a_device_get_capture K4A_WAIT_RESULT_SUCCEEDED,
            k4abt_tracker_enqueue_capture t K4A_WAIT_RESULT_SUCCEEDED,
            k4a_capture_release,
            k4abt_tracker_pop_result t K4A_WAIT_RESULT_SUCCEEDED,
            lsl_push_sample_f (pose_vector (k4abt_frame_get_body_skeleton (body_frame io) 0) J),
            k4abt_frame_release]"
  using assms extract_B_at_most_one [of "body_frame io" J]
  by (simp add: frame_B_def k4abt_frame_get_num_bodies_def)

lemma frame_A_queue_failed:
  assumes "get_capture_result io = K4A_WAIT_RESULT_SUCCEEDED"
    and "queue_capture_result io \<noteq> K4A_WAIT_RESULT_SUCCEEDED"
  shows "frame_A t J io
           = Break [k4a_device_get_capture K4A_WAIT_RESULT_SUCCEEDED,
                    k4abt_tracker_enqueue_capture t (queue_capture_result io),
                    k4a_capture_release,
                    printf ''Failed to queue capture for processing.'']"
  using assms by (simp add: frame_A_def)

lemma frame_B_capture_failed:
  assumes "get_capture_result io \<noteq> K4A_WAIT_RESULT_SUCCEEDED"
  shows "\<exists>msg. frame_B t J io = Break [k4a_device_get_capture (get_capture_result io), printf msg]"
  using assms by (simp add: frame_B_def)

lemma frame_B_queue_failed:
  assumes "get_capture_result io = K4A_WAIT_RESULT_SUCCEEDED"
    and "queue_capture_result io \<noteq> K4A_WAIT_RESULT_SUCCEEDED"
  shows "\<exists>msg. frame_B t J io
           = Break [k4a_device_get_capture K4A_WAIT_RESULT_SUCCEEDED,
                    k4abt_tracker_enqueue_capture t (queue_capture_result io),
                    k4a_capture_release, printf msg]"
  using assms by (cases "queue_capture_result io") (simp_all add: frame_B_def)

lemma frame_B_pop_failed:
  assumes "get_capture_result io = K4A_WAIT_RESULT_SUCCEEDED"
    and "queue_capture_result io = K4A_WAIT_RESULT_SUCCEEDED"
    and "pop_frame_result io \<noteq> K4A_WAIT_RESULT_SUCCEEDED"
  shows "\<exists>msg. frame_B t J io
           = Break [k4a_device_get_capture K4A_WAIT_RESULT_SUCCEEDED,
                    k4abt_tracker_enqueue_capture t K4A_WAIT_RESULT_SUCCEEDED,
                    k4a_capture_release,
                    k4abt_tracker_pop_result t (pop_frame_result io), printf msg]"
  using assms by (simp add: frame_B_def)

lemma capture_calls_frame_A: "capture_calls (flow_log (frame_A t J io)) = 1"
  by (simp add: frame_A_def split: sum.splits)

lemma capture_calls_frame_B: "capture_calls (flow_log (frame_B t J io)) = 1"
  by (simp add: frame_B_def split: sum.splits)

lemma outlets_frame_A: "outlets (flow_log (frame_A t J io)) = []"
  by (simp add: frame_A_def split: sum.splits)

lemma outlets_frame_B: "outlets (flow_log (frame_B t J io)) = []"
  by (simp add: frame_B_def split: sum.splits)

lemma captures_balanced_A:
  "captures_released (flow_log (frame_A t J io)) = captures_acquired (flow_log (frame_A t J io))"
  by (simp add: frame_A_def split: sum.splits)

lemma captures_balanced_B:
  "captures_released (flow_log (frame_B t J io)) = captures_acquired (flow_log (frame_B t J io))"
  by (simp add: frame_B_def split: sum.splits)

lemma results_balanced_A:
  "frame_A t J io = Continue es \<or> frame_A t J io = Break es \<Longrightarrow>
   results_released es = results_acquired es"
  by (auto simp: frame_A_def split: if_splits sum.splits)

lemma results_balanced_B:
  "frame_B t J io = Continue es \<or> frame_B t J io = Break es \<Longrightarrow>
   results_released es = results_acquired es"
  by (auto simp: frame_B_def split: if_splits sum.splits)

subsection \<open>The capture loop\<close>

lemma loop_A_Return:
  "frame_A t J (env i) = Return c es \<Longrightarrow> loop_A t J env i fc tr = Returned c (tr @ es)"
  by (subst loop_A.simps) simp

lemma loop_A_Break:
  "frame_A t J (env i) = Break es \<Longrightarrow> loop_A t J env i fc tr = Left_loop (tr @ es)"
  by (subst loop_A.simps) simp

lemma loop_A_Fault:
  "frame_A t J (env i) = Fault es \<Longrightarrow> loop_A t J env i fc tr = Faulted (tr @ es)"
  by (subst loop_A.simps) simp

lemma loop_A_Continue:
  "frame_A t J (env i) = Continue es \<Longrightarrow>
   loop_A t J env i fc tr =
     (if fc + 1 < 100 then loop_A t J env (i + 1) (fc + 1) (tr @ es) else Left_loop (tr @ es))"
  by (subst loop_A.simps) simp

lemma loop_B_Break:
  "frame_B t J (env i) = Break es \<Longrightarrow>
   loop_B (Suc fuel) t J env i fc tr = Some (Left_loop (tr @ es))"
  by simp

lemma outlets_loop_A: "outlets (end_log (loop_A t J env i fc tr)) = outlets tr"
proof (induction t J env i fc tr rule: loop_A.induct)
  case (1 t J env i fc tr)
  show ?case
  proof (cases "frame_A t J (env i)")
    case (Continue es)
    then have "outlets es = []" using outlets_frame_A [of t J "env i"] by simp
    then show ?thesis using Continue 1
      by (simp add: loop_A_Continue outlets_append)
  next
    case (Break es)
    then have "outlets es = []" using outlets_frame_A [of t J "env i"] by simp
    then show ?thesis using Break by (simp add: loop_A_Break outlets_append)
  next
    case (Return c es)
    then have "outlets es = []" using outlets_frame_A [of t J "env i"] by simp
    then show ?thesis using Return by (simp add: loop_A_Return outlets_append)
  next
    case (Fault es)
    then have "outlets es = []" using outlets_frame_A [of t J "env i"] by simp
    then show ?thesis using Fault by (simp add: loop_A_Fault outlets_append)
  qed
qed

lemma outlets_loop_B:
  "loop_B fuel t J env i fc tr = Some r \<Longrightarrow> outlets (end_log r) = outlets tr"
proof (induction fuel arbitrary: i tr)
  case 0
  then show ?case by simp
next
  case (Suc fuel)
  have "outlets (flow_log (frame_B t J (env i))) = []" by (rule outlets_frame_B)
  then show ?case using Suc
    by (cases "frame_B t J (env i)") (auto simp: outlets_append split: if_splits)
qed

lemma loop_A_bounded:
  "capture_calls (end_log (loop_A t J env i fc tr)) \<le> capture_calls tr + max 1 (100 - fc)"
proof (induction t J env i fc tr rule: loop_A.induct)
  case (1 t J env i fc tr)
  have one: "capture_calls (flow_log (frame_A t J (env i))) = 1" by (rule capture_calls_frame_A)
  show ?case
  proof (cases "frame_A t J (env i)")
    case (Continue es)
    then show ?thesis using one 1
      by (auto simp: loop_A_Continue capture_calls_append)
  next
    case (Break es)
    then show ?thesis using one by (simp add: loop_A_Break capture_calls_append)
  next
    case (Return c es)
    then show ?thesis using one by (simp add: loop_A_Return capture_calls_append)
  next
    case (Fault es)
    then show ?thesis using one by (simp add: loop_A_Fault capture_calls_append)
  qed
qed

lemma loop_A_all_continue:
  assumes all: "\<And>i. \<exists>es. frame_A t J (env i) = Continue es"
  shows "frame_count < 100 \<Longrightarrow>
         \<exists>tr'. loop_A t J env i frame_count tr = Left_loop tr'
               \<and> capture_calls tr' = capture_calls tr + (100 - frame_count)"
proof (induction n \<equiv> "100 - frame_count" arbitrary: i frame_count tr)
  case 0
  then show ?case by simp
next
  case (Suc n)
  obtain es where es: "frame_A t J (env i) = Continue es" using all by blast
  have one: "capture_calls es = 1" using capture_calls_frame_A [of t J "env i"] es by simp
  show ?case
  proof (cases "frame_count + 1 < 100")
    case True
    have "n = 100 - (frame_count + 1)" using Suc.hyps(2) by simp
    then obtain tr' where "loop_A t J env (i + 1) (frame_count + 1) (tr @ es) = Left_loop tr'"
      and "capture_calls tr' = capture_calls (tr @ es) + (100 - (frame_count + 1))"
      using Suc.hyps(1) [of "frame_count + 1" "i + 1" "tr @ es"] True by blast
    then show ?thesis using True one
      by (simp add: loop_A_Continue [where env = env and i = i, OF es] capture_calls_append)
  next
    case False
    then have "frame_count = 99" using Suc.prems by simp
    then show ?thesis using one
      by (simp add: loop_A_Continue [where env = env and i = i, OF es] capture_calls_append)
  qed
qed

lemma loop_B_keeps_running:
  assumes "\<And>i. \<exists>es. frame_B t J (env i) = Continue es" and "fc < 100"
  shows "loop_B fuel t J env i fc tr = None"
proof (induction fuel arbitrary: i tr)
  case 0
  show ?case by simp
next
  case (Suc fuel)
  obtain es where "frame_B t J (env i) = Continue es" using assms(1) by blast
  then show ?case using assms(2) Suc by simp
qed

subsection \<open>Sessions and programs\<close>

lemma after_loop_A_log:
  "outlets (outcome_log (after_loop_A t r)) = outlets (end_log r)"
  by (cases r) (simp_all add: after_loop_A_def cleanup_A_def outlets_append)

lemma after_loop_B_log:
  "outlets (outcome_log (after_loop_B t r)) = outlets (end_log r)"
  by (cases r) (simp_all add: after_loop_B_def cleanup_B_def outlets_append)

lemma session_A_Break:
  "frame_A t J (env i) = Break es \<Longrightarrow>
   session_A t J env i fc tr = Exit 0 (tr @ es @ cleanup_A t)"
  by (simp add: session_A_def loop_A_Break after_loop_A_def)

lemma session_B_Break:
  "frame_B t J (env i) = Break es \<Longrightarrow>
   session_B (Suc fuel) t J env i fc tr = Some (Exit 0 (tr @ es @ cleanup_B t))"
  by (simp add: session_B_def after_loop_B_def)

lemma outlets_session_A: "outlets (outcome_log (session_A t J env i fc tr)) = outlets tr"
  by (simp add: session_A_def after_loop_A_log outlets_loop_A)

lemma outlets_session_B:
  "session_B fuel t J env i fc tr = Some out \<Longrightarrow> outlets (outcome_log out) = outlets tr"
  by (auto simp: session_B_def after_loop_B_log outlets_loop_B)

lemma outlets_replicate_wait: "outlets (replicate n (lsl_wait_for_consumers b)) = []"
  by (induction n) simp_all

lemma outlets_replicate_wait_B:
  "outlets (concat (replicate n [printf m, lsl_wait_for_consumers b])) = []"
  by (induction n) simp_all

lemma outlets_publish_A:
  "outlets tr = [] \<Longrightarrow>
   outlets (outcome_log (publish_A t fb J s env tr)) = [describe_A J (create_info fb)]"
  by (simp add: publish_A_def outlets_session_A outlets_append outlets_replicate_wait
      split: option.splits)

lemma outlets_publish_B:
  "outlets tr = [] \<Longrightarrow> publish_B fuel t fb J s env tr = Some out \<Longrightarrow>
   outlets (outcome_log out) = [describe_B J (create_info fb)]"
  by (auto simp: publish_B_def outlets_append outlets_replicate_wait_B
      dest!: outlets_session_B split: option.splits)

lemma outlets_main_A:
  "set (outlets (outcome_log (main_A J s env)))
     \<subseteq> {describe_A J (create_info True), describe_A J (create_info False)}"
  by (simp add: main_A_def outlets_publish_A)

lemma outlets_main_B:
  "main_B fuel J s env = Some out \<Longrightarrow>
   set (outlets (outcome_log out))
     \<subseteq> {describe_B J (create_info True), describe_B J (create_info False)}"
  by (auto simp: main_B_def split: if_splits dest!: outlets_publish_B [rotated])

lemma backend_negotiation_A:
  assumes "device_open_result s = K4A_RESULT_SUCCEEDED"
    and "start_cameras_result s = K4A_RESULT_SUCCEEDED"
    and "get_calibration_result s = K4A_RESULT_SUCCEEDED"
    and "tracker_create_result s K4ABT_TRACKER_PROCESSING_MODE_GPU_CUDA \<noteq> K4A_RESULT_SUCCEEDED"
  shows "tracker_create_result s K4ABT_TRACKER_PROCESSING_MODE_CPU \<noteq> K4A_RESULT_SUCCEEDED \<Longrightarrow>
         main_A J s env
           = Exit 1
               [k4a_device_open K4A_RESULT_SUCCEEDED,
                k4a_device_start_cameras K4A_RESULT_SUCCEEDED,
                k4a_device_get_calibration K4A_RESULT_SUCCEEDED,
                k4abt_tracker_create K4ABT_TRACKER_PROCESSING_MODE_GPU_CUDA
                  (tracker_create_result s K4ABT_TRACKER_PROCESSING_MODE_GPU_CUDA),
                printf ''CUDA tracker initialization failed! Falling back to standard mode.'',
                k4abt_tracker_create K4ABT_TRACKER_PROCESSING_MODE_CPU
                  (tracker_create_result s K4ABT_TRACKER_PROCESSING_MODE_CPU),
                printf ''Failed to initialize body tracker!'']"
    and "tracker_create_result s K4ABT_TRACKER_PROCESSING_MODE_CPU = K4A_RESULT_SUCCEEDED \<Longrightarrow>
         consumers_after s = Some n \<Longrightarrow>
         main_A J s env
           = session_A (tracker_handle K4ABT_TRACKER_PROCESSING_MODE_CPU) J env 0 0
               ([k4a_device_open K4A_RESULT_SUCCEEDED,
                 k4a_device_start_cameras K4A_RESULT_SUCCEEDED,
                 k4a_device_get_calibration K4A_RESULT_SUCCEEDED,
                 k4abt_tracker_create K4ABT_TRACKER_PROCESSING_MODE_GPU_CUDA
                   (tracker_create_result s K4ABT_TRACKER_PROCESSING_MODE_GPU_CUDA),
                 printf ''CUDA tracker initialization failed! Falling back to standard mode.'',
                 k4abt_tracker_create K4ABT_TRACKER_PROCESSING_MODE_CPU K4A_RESULT_SUCCEEDED,
                 lsl_create_outlet (describe_A J (create_info True)),
                 printf ''Waiting for LSL recorder...'']
                @ replicate n (lsl_wait_for_consumers False)
                @ [lsl_wait_for_consumers True,
                   printf ''Recorder connected. Now sending data...''])"
    and "nominal_srate (describe_A J (create_info True)) = 4"
    and "nominal_srate (describe_A J (create_info False)) = 10"
  using assms
  by (simp_all add: main_A_def publish_A_def describe_A_def create_info_def
      lsl_create_streaminfo_def)

lemma main_A_one_body_ends:
  "\<exists>tr. main_A table2 startup_cuda env_one_body = Exit 0 tr \<and> capture_calls tr = 100"
proof -
  let ?t = "tracker_handle K4ABT_TRACKER_PROCESSING_MODE_GPU_CUDA"
  have "\<exists>es. frame_A ?t table2 (env_one_body i) = Continue es" for i
    using frame_A_tracked [of "env_one_body i" table2 ?t]
    by (simp add: env_one_body_def io_tracked_def k4abt_frame_get_num_bodies_def table2_def)
  then obtain tr' where
    "loop_A ?t table2 env_one_body 0 0
       [k4a_device_open K4A_RESULT_SUCCEEDED,
        k4a_device_start_cameras K4A_RESULT_SUCCEEDED,
        k4a_device_get_calibration K4A_RESULT_SUCCEEDED,
        k4abt_tracker_create K4ABT_TRACKER_PROCESSING_MODE_GPU_CUDA K4A_RESULT_SUCCEEDED,
        printf ''CUDA tracker initialized successfully.'',
        lsl_create_outlet (describe_A table2 (create_info False)),
        printf ''Waiting for LSL recorder...'',
        lsl_wait_for_consumers True,
        printf ''Recorder connected. Now sending data...''] = Left_loop tr'"
    and "capture_calls tr' = 100"
    using loop_A_all_continue [of ?t table2 env_one_body 0 0] by fastforce
  then show ?thesis
    by (simp add: main_A_def startup_cuda_def publish_A_def session_A_def after_loop_A_def
        cleanup_A_def capture_calls_append)
qed

lemma main_A_one_then_two:
  "main_A table2 startup_cuda env_one_then_two
     = Exit (- 1)
        [k4a_device_open K4A_RESULT_SUCCEEDED,
         k4a_device_start_cameras K4A_RESULT_SUCCEEDED,
         k4a_device_get_calibration K4A_RESULT_SUCCEEDED,
         k4abt_tracker_create K4ABT_TRACKER_PROCESSING_MODE_GPU_CUDA K4A_RESULT_SUCCEEDED,
         printf ''CUDA tracker initialized successfully.'',
         lsl_create_outlet (describe_A table2 (create_info False)),
         printf ''Waiting for LSL recorder...'',
         lsl_wait_for_consumers True,
         printf ''Recorder connected. Now sending data...'',
         k4a_device_get_capture K4A_WAIT_RESULT_SUCCEEDED,
         k4abt_tracker_enqueue_capture (tracker_handle K4ABT_TRACKER_PROCESSING_MODE_GPU_CUDA)
           K4A_WAIT_RESULT_SUCCEEDED,
         k4a_capture_release,
         k4abt_tracker_pop_result (tracker_handle K4ABT_TRACKER_PROCESSING_MODE_GPU_CUDA)
           K4A_WAIT_RESULT_SUCCEEDED,
         lsl_push_sample_f (pose_vector (Some skeleton1) table2),
         k4abt_frame_release,
         k4a_device_get_capture K4A_WAIT_RESULT_SUCCEEDED,
         k4abt_tracker_enqueue_capture (tracker_handle K4ABT_TRACKER_PROCESSING_MODE_GPU_CUDA)
           K4A_WAIT_RESULT_SUCCEEDED,
         k4a_capture_release,
         k4abt_tracker_pop_result (tracker_handle K4ABT_TRACKER_PROCESSING_MODE_GPU_CUDA)
           K4A_WAIT_RESULT_SUCCEEDED,
         printf ''Multiple bodies detected (%zu)! Exiting...'']"
proof -
  let ?t = "tracker_handle K4ABT_TRACKER_PROCESSING_MODE_GPU_CUDA"
  have f0: "frame_A ?t table2 (env_one_then_two 0) = Continue
         [k4a_device_get_capture K4A_WAIT_RESULT_SUCCEEDED,
          k4abt_tracker_enqueue_capture ?t K4A_WAIT_RESULT_SUCCEEDED,
          k4a_capture_release,
          k4abt_tracker_pop_result ?t K4A_WAIT_RESULT_SUCCEEDED,
          lsl_push_sample_f (pose_vector (Some skeleton1) table2),
          k4abt_frame_release]"
    using frame_A_tracked [of "env_one_then_two 0" table2 ?t]
    by (simp add: env_one_then_two_def io_tracked_def k4abt_frame_get_num_bodies_def
        k4abt_frame_get_body_skeleton_def table2_def)
  have f1: "frame_A ?t table2 (env_one_then_two (Suc 0)) = Return (- 1)
         [k4a_device_get_capture K4A_WAIT_RESULT_SUCCEEDED,
          k4abt_tracker_enqueue_capture ?t K4A_WAIT_RESULT_SUCCEEDED,
          k4a_capture_release,
          k4abt_tracker_pop_result ?t K4A_WAIT_RESULT_SUCCEEDED,
          printf ''Multiple bodies detected (%zu)! Exiting...'']"
    by (rule frame_A_multi)
       (simp_all add: env_one_then_two_def io_tracked_def k4abt_frame_get_num_bodies_def)
  show ?thesis
    by (simp add: main_A_def startup_cuda_def publish_A_def session_A_def
        loop_A_Continue [where env = env_one_then_two and i = 0, OF f0]
        loop_A_Return [where env = env_one_then_two and i = "Suc 0", OF f1] after_loop_A_def)
qed

lemma main_B_one_then_two:
  "main_B 2 table2 startup_cuda env_one_then_two
     = Some (Exit (- 1)
        [k4a_device_open K4A_RESULT_SUCCEEDED,
         k4a_device_start_cameras K4A_RESULT_SUCCEEDED,
         k4a_device_get_calibration K4A_RESULT_SUCCEEDED,
         k4abt_tracker_create K4ABT_TRACKER_PROCESSING_MODE_GPU_CUDA K4A_RESULT_SUCCEEDED,
         printf ''Running tracker is CUDA mode'',
         lsl_create_outlet (describe_B table2 (create_info False)),
         printf ''Waiting for recorder'',
         lsl_wait_for_consumers True,
         printf ''Now sending data...'',
         k4a_device_get_capture K4A_WAIT_RESULT_SUCCEEDED,
         k4abt_tracker_enqueue_capture (tracker_handle K4ABT_TRACKER_PROCESSING_MODE_GPU_CUDA)
           K4A_WAIT_RESULT_SUCCEEDED,
         k4a_capture_release,
         k4abt_tracker_pop_result (tracker_handle K4ABT_TRACKER_PROCESSING_MODE_GPU_CUDA)
           K4A_WAIT_RESULT_SUCCEEDED,
         lsl_push_sample_f (pose_vector (Some skeleton1) table2),
         k4abt_frame_release,
         k4a_device_get_capture K4A_WAIT_RESULT_SUCCEEDED,
         k4abt_tracker_enqueue_capture (tracker_handle K4ABT_TRACKER_PROCESSING_MODE_GPU_CUDA)
           K4A_WAIT_RESULT_SUCCEEDED,
         k4a_capture_release,
         k4abt_tracker_pop_result (tracker_handle K4ABT_TRACKER_PROCESSING_MODE_GPU_CUDA)
           K4A_WAIT_RESULT_SUCCEEDED,
         printf ''%zu bodies are detected!''])"
proof -
  let ?t = "tracker_handle K4ABT_TRACKER_PROCESSING_MODE_GPU_CUDA"
  have f0: "frame_B ?t table2 (env_one_then_two 0) = Continue
         [k4a_device_get_capture K4A_WAIT_RESULT_SUCCEEDED,
          k4abt_tracker_enqueue_capture ?t K4A_WAIT_RESULT_SUCCEEDED,
          k4a_capture_release,
          k4abt_tracker_pop_result ?t K4A_WAIT_RESULT_SUCCEEDED,
          lsl_push_sample_f (pose_vector (Some skeleton1) table2),
          k4abt_frame_release]"
    using frame_B_tracked [of "env_one_then_two 0" table2 ?t]
    by (simp add: env_one_then_two_def io_tracked_def k4abt_frame_get_num_bodies_def
        k4abt_frame_get_body_skeleton_def table2_def)
  have f1: "frame_B ?t table2 (env_one_then_two (Suc 0)) = Return (- 1)
         [k4a_device_get_capture K4A_WAIT_RESULT_SUCCEEDED,
          k4abt_tracker_enqueue_capture ?t K4A_WAIT_RESULT_SUCCEEDED,
          k4a_capture_release,
          k4abt_tracker_pop_result ?t K4A_WAIT_RESULT_SUCCEEDED,
          printf ''%zu bodies are detected!'']"
    by (rule frame_B_multi)
       (simp_all add: env_one_then_two_def io_tracked_def k4abt_frame_get_num_bodies_def)
  show ?thesis
    by (simp add: main_B_def startup_cuda_def publish_B_def session_B_def numeral_2_eq_2
        f0 f1 after_loop_B_def)
qed

section \<open>The claims\<close>

text \<open>
  C1, the code at a table of 32 joints and one tracked body: the stores for the joint at
  table index 31 go to offsets 217 to 223, past the end of \<open>float data[7 * 31]\<close>, in
  both pipelines. (For tables of at most 31 joints \<open>extractor_layout\<close> gives the layout
  the claim states.)
\<close>

theorem extractor_overruns_buffer_at_32_joints:
  "length table32 = 32
   \<and> extract_A [skeleton1] table32 0 data_decl = Inl out_of_bounds
   \<and> extract_B [skeleton1] table32 0 data_decl = Inl out_of_bounds"
  using extract_A_overrun [of table32 "[skeleton1]"] extract_B_overrun [of table32 skeleton1]
  by (simp add: length_table32)

text \<open>
  C2: the joint table used by the program is \<open>g_jointNames\<close>, whose 32 entries the
  literal 32 * 7 of the channel count stands for. For every table of that size N = 32,
  whichever branch the tracker creation took, the descriptor built by either pipeline
  declares the channel count 7 * N and holds exactly 7 * N channel labels, appended in
  table order, each joint's name followed by \<open>_posx\<close>, \<open>_posy\<close>, \<open>_posz\<close>, \<open>_oriw\<close>,
  \<open>_orix\<close>, \<open>_oriy\<close>, \<open>_oriz\<close>.
\<close>

theorem descriptor_channels_match_table:
  assumes "length J = 32"
  shows "channel_count (describe_A J (create_info fallback)) = 7 * length J
         \<and> length (channel_labels_A (describe_A J (create_info fallback))) = 7 * length J
         \<and> channel_labels_A (describe_A J (create_info fallback)) = expected_labels J
         \<and> channel_count (describe_B J (create_info fallback)) = 7 * length J
         \<and> length (channel_labels_B (describe_B J (create_info fallback))) = 7 * length J
         \<and> channel_labels_B (describe_B J (create_info fallback)) = expected_labels J
         \<and> expected_labels J
             = concat (map (\<lambda>it. [snd it @ ''_posx'', snd it @ ''_posy'', snd it @ ''_posz'',
                                   snd it @ ''_oriw'', snd it @ ''_orix'', snd it @ ''_oriy'',
                                   snd it @ ''_oriz'']) J)"
proof -
  have spelled: "expected_labels J
      = concat (map (\<lambda>it. [snd it @ ''_posx'', snd it @ ''_posy'', snd it @ ''_posz'',
                            snd it @ ''_oriw'', snd it @ ''_orix'', snd it @ ''_oriy'',
                            snd it @ ''_oriz'']) J)"
    by (simp add: expected_labels_def suffixes_def)
  have counts: "channel_count (describe_A J (create_info fallback)) = 7 * length J
         \<and> length (channel_labels_A (describe_A J (create_info fallback))) = 7 * length J
         \<and> channel_labels_A (describe_A J (create_info fallback)) = expected_labels J
         \<and> channel_count (describe_B J (create_info fallback)) = 7 * length J
         \<and> length (channel_labels_B (describe_B J (create_info fallback))) = 7 * length J
         \<and> channel_labels_B (describe_B J (create_info fallback)) = expected_labels J"
    using assms
    by (simp add: channel_count_A channel_count_B labels_A labels_B length_expected_labels)
  from counts spelled show ?thesis by blast
qed

theorem descriptor_channels_match_table_witness:
  "length table32 = 32
   \<and> channel_count (describe_A table32 (create_info False)) = 7 * length table32
   \<and> length (channel_labels_A (describe_A table32 (create_info False))) = 7 * length table32
   \<and> channel_labels_A (describe_A table32 (create_info False)) = expected_labels table32
   \<and> channel_count (describe_B table32 (create_info True)) = 7 * length table32
   \<and> length (channel_labels_B (describe_B table32 (create_info True))) = 7 * length table32
   \<and> channel_labels_B (describe_B table32 (create_info True)) = expected_labels table32"
  using descriptor_channels_match_table [of table32 False]
    descriptor_channels_match_table [of table32 True] length_table32
  by blast

text \<open>
  C3, the code at a table of 32 joints and one tracked body: the buffer has 217 cells
  whatever the table, the descriptor declares 224 channels, the table needs 224 cells,
  and the iteration that extracts from it runs into the out-of-bounds store.
\<close>

theorem buffer_shorter_than_channel_count:
  "length (data_decl :: int buffer) = 217
   \<and> channel_count (describe_A table32 (create_info False)) = 224
   \<and> channel_count (describe_B table32 (create_info False)) = 224
   \<and> 7 * length table32 = 224
   \<and> frame_A NULL table32 (env_one_body 0)
       = Fault [k4a_device_get_capture K4A_WAIT_RESULT_SUCCEEDED,
                k4abt_tracker_enqueue_capture NULL K4A_WAIT_RESULT_SUCCEEDED,
                k4a_capture_release,
                k4abt_tracker_pop_result NULL K4A_WAIT_RESULT_SUCCEEDED]
   \<and> frame_B NULL table32 (env_one_body 0)
       = Fault [k4a_device_get_capture K4A_WAIT_RESULT_SUCCEEDED,
                k4abt_tracker_enqueue_capture NULL K4A_WAIT_RESULT_SUCCEEDED,
                k4a_capture_release,
                k4abt_tracker_pop_result NULL K4A_WAIT_RESULT_SUCCEEDED]"
  using extract_A_overrun [of table32 "[skeleton1]"] extract_B_overrun [of table32 skeleton1]
  by (simp add: length_table32 channel_count_A channel_count_B uninitialised_def
      frame_A_def frame_B_def env_one_body_def io_tracked_def k4abt_frame_get_num_bodies_def)

text \<open>
  C4: when the tracking result of iteration \<open>i\<close> reports more than one body, the rest
  of the run is this: the process ends with exit status -1, and its log is the log up
  to that iteration followed by the capture, the submission, the release of the
  capture, the pop and the message. No sample is pushed in that iteration, no store
  into the pose buffer is made, and no further iteration runs. This holds in both
  pipelines, whatever the table, the iteration number and the frame count.
\<close>

theorem multi_body_aborts_session:
  assumes "get_capture_result (env i) = K4A_WAIT_RESULT_SUCCEEDED"
    and "queue_capture_result (env i) = K4A_WAIT_RESULT_SUCCEEDED"
    and "pop_frame_result (env i) = K4A_WAIT_RESULT_SUCCEEDED"
    and "1 < k4abt_frame_get_num_bodies (body_frame (env i))"
  shows "session_A t J env i frame_count tr
           = Exit (- 1)
               (tr @ [k4a_device_get_capture K4A_WAIT_RESULT_SUCCEEDED,
                      k4abt_tracker_enqueue_capture t K4A_WAIT_RESULT_SUCCEEDED,
                      k4a_capture_release,
                      k4abt_tracker_pop_result t K4A_WAIT_RESULT_SUCCEEDED,
                      printf ''Multiple bodies detected (%zu)! Exiting...''])
         \<and> session_B (Suc fuel) t J env i frame_count tr
           = Some (Exit (- 1)
               (tr @ [k4a_device_get_capture K4A_WAIT_RESULT_SUCCEEDED,
                      k4abt_tracker_enqueue_capture t K4A_WAIT_RESULT_SUCCEEDED,
                      k4a_capture_release,
                      k4abt_tracker_pop_result t K4A_WAIT_RESULT_SUCCEEDED,
                      printf ''%zu bodies are detected!'']))
         \<and> pushes (outcome_log (session_A t J env i frame_count tr)) = pushes tr
         \<and> map_option (\<lambda>out. pushes (outcome_log out))
               (session_B (Suc fuel) t J env i frame_count tr) = Some (pushes tr)
         \<and> (- 1 :: int) \<noteq> 0"
proof -
  have a: "loop_A t J env i frame_count tr
      = Returned (- 1)
               (tr @ [k4a_device_get_capture K4A_WAIT_RESULT_SUCCEEDED,
                      k4abt_tracker_enqueue_capture t K4A_WAIT_RESULT_SUCCEEDED,
                      k4a_capture_release,
                      k4abt_tracker_pop_result t K4A_WAIT_RESULT_SUCCEEDED,
                      printf ''Multiple bodies detected (%zu)! Exiting...''])"
    using assms by (intro loop_A_Return frame_A_multi)
  have b: "loop_B (Suc fuel) t J env i frame_count tr
      = Some (Returned (- 1)
               (tr @ [k4a_device_get_capture K4A_WAIT_RESULT_SUCCEEDED,
                      k4abt_tracker_enqueue_capture t K4A_WAIT_RESULT_SUCCEEDED,
                      k4a_capture_release,
                      k4abt_tracker_pop_result t K4A_WAIT_RESULT_SUCCEEDED,
                      printf ''%zu bodies are detected!'']))"
    using frame_B_multi [OF assms, of t J] by simp
  show ?thesis
    unfolding session_A_def session_B_def a b
    by (simp add: after_loop_A_def after_loop_B_def pushes_append)
qed

theorem multi_body_aborts_session_witness:
  "1 < k4abt_frame_get_num_bodies (body_frame (env_two_bodies 0))
   \<and> session_A (tracker_handle K4ABT_TRACKER_PROCESSING_MODE_GPU_CUDA) table2 env_two_bodies 0 0 []
       = Exit (- 1)
               [k4a_device_get_capture K4A_WAIT_RESULT_SUCCEEDED,
                k4abt_tracker_enqueue_capture
                  (tracker_handle K4ABT_TRACKER_PROCESSING_MODE_GPU_CUDA) K4A_WAIT_RESULT_SUCCEEDED,
                k4a_capture_release,
                k4abt_tracker_pop_result
                  (tracker_handle K4ABT_TRACKER_PROCESSING_MODE_GPU_CUDA) K4A_WAIT_RESULT_SUCCEEDED,
                printf ''Multiple bodies detected (%zu)! Exiting...'']
   \<and> session_B 1 (tracker_handle K4ABT_TRACKER_PROCESSING_MODE_GPU_CUDA) table2 env_two_bodies 0 0 []
       = Some (Exit (- 1)
               [k4a_device_get_capture K4A_WAIT_RESULT_SUCCEEDED,
                k4abt_tracker_enqueue_capture
                  (tracker_handle K4ABT_TRACKER_PROCESSING_MODE_GPU_CUDA) K4A_WAIT_RESULT_SUCCEEDED,
                k4a_capture_release,
                k4abt_tracker_pop_result
                  (tracker_handle K4ABT_TRACKER_PROCESSING_MODE_GPU_CUDA) K4A_WAIT_RESULT_SUCCEEDED,
                printf ''%zu bodies are detected!''])"
  using multi_body_aborts_session
          [of env_two_bodies 0 "tracker_handle K4ABT_TRACKER_PROCESSING_MODE_GPU_CUDA" table2 0 "[]" 0]
  by (simp add: env_two_bodies_def io_tracked_def k4abt_frame_get_num_bodies_def)

text \<open>
  C5, the code at an iteration whose tracking result holds no body: both pipelines push
  one sample, the buffer of 217 indeterminate values, release the result and go on.
\<close>

theorem zero_bodies_still_pushes:
  "frame_A NULL table2 (env_no_body 0)
     = Continue [k4a_device_get_capture K4A_WAIT_RESULT_SUCCEEDED,
                 k4abt_tracker_enqueue_capture NULL K4A_WAIT_RESULT_SUCCEEDED,
                 k4a_capture_release,
                 k4abt_tracker_pop_result NULL K4A_WAIT_RESULT_SUCCEEDED,
                 lsl_push_sample_f data_decl,
                 k4abt_frame_release]
   \<and> frame_B NULL table2 (env_no_body 0)
     = Continue [k4a_device_get_capture K4A_WAIT_RESULT_SUCCEEDED,
                 k4abt_tracker_enqueue_capture NULL K4A_WAIT_RESULT_SUCCEEDED,
                 k4a_capture_release,
                 k4abt_tracker_pop_result NULL K4A_WAIT_RESULT_SUCCEEDED,
                 lsl_push_sample_f data_decl,
                 k4abt_frame_release]
   \<and> pushes (flow_log (frame_A NULL table2 (env_no_body 0))) = [data_decl]
   \<and> pushes (flow_log (frame_B NULL table2 (env_no_body 0))) = [data_decl]"
  using frame_A_tracked [of "env_no_body 0" table2 NULL]
    frame_B_tracked [of "env_no_body 0" table2 NULL] pose_vector_None [of table2]
  by (simp add: env_no_body_def io_tracked_def k4abt_frame_get_num_bodies_def
      k4abt_frame_get_body_skeleton_def table2_def)

text \<open>
  C6, the code at an iteration whose tracking result holds two bodies: the result was
  acquired by the pop, and \<open>main\<close> returns without \<open>k4abt_frame_release\<close>. (On the
  other paths the releases match the acquisitions: \<open>captures_balanced_A\<close>,
  \<open>captures_balanced_B\<close>, \<open>results_balanced_A\<close>, \<open>results_balanced_B\<close>.)
\<close>

theorem multi_body_abort_skips_frame_release:
  "frame_A NULL table2 (env_two_bodies 0)
     = Return (- 1) [k4a_device_get_capture K4A_WAIT_RESULT_SUCCEEDED,
                     k4abt_tracker_enqueue_capture NULL K4A_WAIT_RESULT_SUCCEEDED,
                     k4a_capture_release,
                     k4abt_tracker_pop_result NULL K4A_WAIT_RESULT_SUCCEEDED,
                     printf ''Multiple bodies detected (%zu)! Exiting...'']
   \<and> results_acquired (flow_log (frame_A NULL table2 (env_two_bodies 0))) = 1
   \<and> results_released (flow_log (frame_A NULL table2 (env_two_bodies 0))) = 0
   \<and> frame_B NULL table2 (env_two_bodies 0)
     = Return (- 1) [k4a_device_get_capture K4A_WAIT_RESULT_SUCCEEDED,
                     k4abt_tracker_enqueue_capture NULL K4A_WAIT_RESULT_SUCCEEDED,
                     k4a_capture_release,
                     k4abt_tracker_pop_result NULL K4A_WAIT_RESULT_SUCCEEDED,
                     printf ''%zu bodies are detected!'']
   \<and> results_acquired (flow_log (frame_B NULL table2 (env_two_bodies 0))) = 1
   \<and> results_released (flow_log (frame_B NULL table2 (env_two_bodies 0))) = 0"
  by (simp add: frame_A_def frame_B_def env_two_bodies_def io_tracked_def
      k4abt_frame_get_num_bodies_def)

text \<open>
  C7, as the code has it: a failure the pipeline reacts to (a submission that does not
  succeed, in either pipeline; in pipeline B also a capture wait or a pop that does not
  succeed) ends the loop in that iteration. Nothing is retried and no later iteration
  runs; the capture, if one was acquired, was released right after the submission; then
  the code after the loop shuts the tracker down, destroys it, stops and closes the
  device, and the process exits with status 0.
\<close>

theorem mid_loop_failure_ends_session:
  "(get_capture_result (env i) = K4A_WAIT_RESULT_SUCCEEDED
      \<and> queue_capture_result (env i) \<noteq> K4A_WAIT_RESULT_SUCCEEDED \<longrightarrow>
      session_A t J env i frame_count tr
        = Exit 0 (tr @ [k4a_device_get_capture K4A_WAIT_RESULT_SUCCEEDED,
                        k4abt_tracker_enqueue_capture t (queue_capture_result (env i)),
                        k4a_capture_release,
                        printf ''Failed to queue capture for processing.'']
                     @ cleanup_A t))
   \<and> (get_capture_result (env i) \<noteq> K4A_WAIT_RESULT_SUCCEEDED \<longrightarrow>
      (\<exists>msg. session_B (Suc fuel) t J env i frame_count tr
        = Some (Exit 0 (tr @ [k4a_device_get_capture (get_capture_result (env i)), printf msg]
                           @ cleanup_B t))))
   \<and> (get_capture_result (env i) = K4A_WAIT_RESULT_SUCCEEDED
      \<and> queue_capture_result (env i) \<noteq> K4A_WAIT_RESULT_SUCCEEDED \<longrightarrow>
      (\<exists>msg. session_B (Suc fuel) t J env i frame_count tr
        = Some (Exit 0 (tr @ [k4a_device_get_capture K4A_WAIT_RESULT_SUCCEEDED,
                              k4abt_tracker_enqueue_capture t (queue_capture_result (env i)),
                              k4a_capture_release, printf msg]
                           @ cleanup_B t))))
   \<and> (get_capture_result (env i) = K4A_WAIT_RESULT_SUCCEEDED
      \<and> queue_capture_result (env i) = K4A_WAIT_RESULT_SUCCEEDED
      \<and> pop_frame_result (env i) \<noteq> K4A_WAIT_RESULT_SUCCEEDED \<longrightarrow>
      (\<exists>msg. session_B (Suc fuel) t J env i frame_count tr
        = Some (Exit 0 (tr @ [k4a_device_get_capture K4A_WAIT_RESULT_SUCCEEDED,
                              k4abt_tracker_enqueue_capture t K4A_WAIT_RESULT_SUCCEEDED,
                              k4a_capture_release,
                              k4abt_tracker_pop_result t (pop_frame_result (env i)), printf msg]
                           @ cleanup_B t))))
   \<and> cleanup_A t = [printf ''Body tracking completed.'', k4abt_tracker_shutdown t,
                     k4abt_tracker_destroy t, k4a_device_stop_cameras, k4a_device_close]
   \<and> cleanup_B t = [printf ''Finished body tracking processing!'', k4abt_tracker_shutdown t,
                     k4abt_tracker_destroy t, k4a_device_stop_cameras, k4a_device_close]"
proof (intro conjI impI)
  assume a: "get_capture_result (env i) = K4A_WAIT_RESULT_SUCCEEDED
      \<and> queue_capture_result (env i) \<noteq> K4A_WAIT_RESULT_SUCCEEDED"
  then show "session_A t J env i frame_count tr
        = Exit 0 (tr @ [k4a_device_get_capture K4A_WAIT_RESULT_SUCCEEDED,
                        k4abt_tracker_enqueue_capture t (queue_capture_result (env i)),
                        k4a_capture_release,
                        printf ''Failed to queue capture for processing.'']
                     @ cleanup_A t)"
    using session_A_Break [where env = env and i = i, OF frame_A_queue_failed] by blast
  from a obtain msg where "frame_B t J (env i)
           = Break [k4a_device_get_capture K4A_WAIT_RESULT_SUCCEEDED,
                    k4abt_tracker_enqueue_capture t (queue_capture_result (env i)),
                    k4a_capture_release, printf msg]"
    using frame_B_queue_failed [of "env i" t J] by blast
  then show "\<exists>msg. session_B (Suc fuel) t J env i frame_count tr
        = Some (Exit 0 (tr @ [k4a_device_get_capture K4A_WAIT_RESULT_SUCCEEDED,
                              k4abt_tracker_enqueue_capture t (queue_capture_result (env i)),
                              k4a_capture_release, printf msg]
                           @ cleanup_B t))"
    using session_B_Break [where env = env and i = i] by blast
next
  assume "get_capture_result (env i) \<noteq> K4A_WAIT_RESULT_SUCCEEDED"
  then obtain msg where "frame_B t J (env i)
      = Break [k4a_device_get_capture (get_capture_result (env i)), printf msg]"
    using frame_B_capture_failed [of "env i" t J] by blast
  then show "\<exists>msg. session_B (Suc fuel) t J env i frame_count tr
        = Some (Exit 0 (tr @ [k4a_device_get_capture (get_capture_result (env i)), printf msg]
                           @ cleanup_B t))"
    using session_B_Break [where env = env and i = i] by blast
next
  assume "get_capture_result (env i) = K4A_WAIT_RESULT_SUCCEEDED
      \<and> queue_capture_result (env i) = K4A_WAIT_RESULT_SUCCEEDED
      \<and> pop_frame_result (env i) \<noteq> K4A_WAIT_RESULT_SUCCEEDED"
  then obtain msg where "frame_B t J (env i)
           = Break [k4a_device_get_capture K4A_WAIT_RESULT_SUCCEEDED,
                    k4abt_tracker_enqueue_capture t K4A_WAIT_RESULT_SUCCEEDED,
                    k4a_capture_release,
                    k4abt_tracker_pop_result t (pop_frame_result (env i)), printf msg]"
    using frame_B_pop_failed [of "env i" t J] by blast
  then show "\<exists>msg. session_B (Suc fuel) t J env i frame_count tr
        = Some (Exit 0 (tr @ [k4a_device_get_capture K4A_WAIT_RESULT_SUCCEEDED,
                              k4abt_tracker_enqueue_capture t K4A_WAIT_RESULT_SUCCEEDED,
                              k4a_capture_release,
                              k4abt_tracker_pop_result t (pop_frame_result (env i)), printf msg]
                           @ cleanup_B t))"
    using session_B_Break [where env = env and i = i] by blast
next
  show "cleanup_A t = [printf ''Body tracking completed.'', k4abt_tracker_shutdown t,
                     k4abt_tracker_destroy t, k4a_device_stop_cameras, k4a_device_close]"
    by (simp add: cleanup_A_def)
  show "cleanup_B t = [printf ''Finished body tracking processing!'', k4abt_tracker_shutdown t,
                     k4abt_tracker_destroy t, k4a_device_stop_cameras, k4a_device_close]"
    by (simp add: cleanup_B_def)
qed

theorem mid_loop_failure_ends_session_witness:
  "session_A (tracker_handle K4ABT_TRACKER_PROCESSING_MODE_CPU) table2 env_queue_failed 0 0 []
     = Exit 0 [k4a_device_get_capture K4A_WAIT_RESULT_SUCCEEDED,
               k4abt_tracker_enqueue_capture (tracker_handle K4ABT_TRACKER_PROCESSING_MODE_CPU)
                 K4A_WAIT_RESULT_FAILED,
               k4a_capture_release,
               printf ''Failed to queue capture for processing.'',
               printf ''Body tracking completed.'',
               k4abt_tracker_shutdown (tracker_handle K4ABT_TRACKER_PROCESSING_MODE_CPU),
               k4abt_tracker_destroy (tracker_handle K4ABT_TRACKER_PROCESSING_MODE_CPU),
               k4a_device_stop_cameras, k4a_device_close]
   \<and> session_B 1 NULL table2 env_capture_failed 0 0 []
     = Some (Exit 0 [k4a_device_get_capture K4A_WAIT_RESULT_FAILED,
                     printf ''Get depth capture returned error: %d'',
                     printf ''Finished body tracking processing!'',
                     k4abt_tracker_shutdown NULL, k4abt_tracker_destroy NULL,
                     k4a_device_stop_cameras, k4a_device_close])
   \<and> session_B 1 NULL table2 env_queue_failed 0 0 []
     = Some (Exit 0 [k4a_device_get_capture K4A_WAIT_RESULT_SUCCEEDED,
                     k4abt_tracker_enqueue_capture NULL K4A_WAIT_RESULT_FAILED,
                     k4a_capture_release,
                     printf ''Error! Add capture to tracker process queue failed!'',
                     printf ''Finished body tracking processing!'',
                     k4abt_tracker_shutdown NULL, k4abt_tracker_destroy NULL,
                     k4a_device_stop_cameras, k4a_device_close])
   \<and> session_B 1 NULL table2 env_pop_failed 0 0 []
     = Some (Exit 0 [k4a_device_get_capture K4A_WAIT_RESULT_SUCCEEDED,
                     k4abt_tracker_enqueue_capture NULL K4A_WAIT_RESULT_SUCCEEDED,
                     k4a_capture_release,
                     k4abt_tracker_pop_result NULL K4A_WAIT_RESULT_FAILED,
                     printf ''Pop body frame result failed!'',
                     printf ''Finished body tracking processing!'',
                     k4abt_tracker_shutdown NULL, k4abt_tracker_destroy NULL,
                     k4a_device_stop_cameras, k4a_device_close])"
  using mid_loop_failure_ends_session
          [where env = env_queue_failed and i = 0 and J = table2 and frame_count = 0
             and tr = "[]" and fuel = 0 and t = "tracker_handle K4ABT_TRACKER_PROCESSING_MODE_CPU"]
        mid_loop_failure_ends_session
          [where env = env_capture_failed and i = 0 and J = table2 and frame_count = 0
             and tr = "[]" and fuel = 0 and t = NULL]
        mid_loop_failure_ends_session
          [where env = env_queue_failed and i = 0 and J = table2 and frame_count = 0
             and tr = "[]" and fuel = 0 and t = NULL]
        mid_loop_failure_ends_session
          [where env = env_pop_failed and i = 0 and J = table2 and frame_count = 0
             and tr = "[]" and fuel = 0 and t = NULL]
  by (simp add: env_queue_failed_def env_capture_failed_def env_pop_failed_def
      io_queue_failed_def io_capture_failed_def io_pop_failed_def io_tracked_def
      session_B_def frame_B_def after_loop_B_def cleanup_A_def cleanup_B_def)

text \<open>
  C7 as stated fails: in pipeline B, with the first capture wait failing, the process
  exits with status 0.
\<close>

theorem mid_loop_failure_exit_status_counterexample:
  "main_B 1 table2 startup_cuda env_capture_failed
     = Some (Exit 0
        [k4a_device_open K4A_RESULT_SUCCEEDED,
         k4a_device_start_cameras K4A_RESULT_SUCCEEDED,
         k4a_device_get_calibration K4A_RESULT_SUCCEEDED,
         k4abt_tracker_create K4ABT_TRACKER_PROCESSING_MODE_GPU_CUDA K4A_RESULT_SUCCEEDED,
         printf ''Running tracker is CUDA mode'',
         lsl_create_outlet (describe_B table2 (create_info False)),
         printf ''Waiting for recorder'',
         lsl_wait_for_consumers True,
         printf ''Now sending data...'',
         k4a_device_get_capture K4A_WAIT_RESULT_FAILED,
         printf ''Get depth capture returned error: %d'',
         printf ''Finished body tracking processing!'',
         k4abt_tracker_shutdown (tracker_handle K4ABT_TRACKER_PROCESSING_MODE_GPU_CUDA),
         k4abt_tracker_destroy (tracker_handle K4ABT_TRACKER_PROCESSING_MODE_GPU_CUDA),
         k4a_device_stop_cameras, k4a_device_close])"
  by (simp add: main_B_def startup_cuda_def publish_B_def session_B_def frame_B_def
      env_capture_failed_def io_capture_failed_def io_tracked_def after_loop_B_def cleanup_B_def)

text \<open>
  C8, the code of pipeline B when both tracker creations fail: the result of the second
  creation is not looked at, the outlet is created with the sample-rate hint 4, and the
  capture loop is entered with \<open>tracker\<close> still \<open>NULL\<close>; here the first submission fails
  and the process exits with status 0. (Pipeline A does what the claim says:
  \<open>backend_negotiation_A\<close>.)
\<close>

theorem fallback_failure_enters_loop_B:
  "main_B 1 table2 startup_no_tracker env_queue_failed
     = Some (Exit 0
        [k4a_device_open K4A_RESULT_SUCCEEDED,
         k4a_device_start_cameras K4A_RESULT_SUCCEEDED,
         k4a_device_get_calibration K4A_RESULT_SUCCEEDED,
         k4abt_tracker_create K4ABT_TRACKER_PROCESSING_MODE_GPU_CUDA K4A_RESULT_FAILED,
         printf ''Body tracker initialization failed!'',
         k4abt_tracker_create K4ABT_TRACKER_CONFIG_DEFAULT K4A_RESULT_FAILED,
         printf ''Running tracker is standard (slow) mode'',
         lsl_create_outlet (describe_B table2 (create_info True)),
         printf ''Waiting for recorder'',
         lsl_wait_for_consumers True,
         printf ''Now sending data...'',
         k4a_device_get_capture K4A_WAIT_RESULT_SUCCEEDED,
         k4abt_tracker_enqueue_capture NULL K4A_WAIT_RESULT_FAILED,
         k4a_capture_release,
         printf ''Error! Add capture to tracker process queue failed!'',
         printf ''Finished body tracking processing!'',
         k4abt_tracker_shutdown NULL,
         k4abt_tracker_destroy NULL,
         k4a_device_stop_cameras, k4a_device_close])"
  by (simp add: main_B_def startup_no_tracker_def startup_cuda_def publish_B_def session_B_def
      frame_B_def env_queue_failed_def io_queue_failed_def io_tracked_def after_loop_B_def
      cleanup_B_def)

text \<open>
  C9, the code of pipeline B when nothing fails and every tracking result holds one
  body: \<open>frame_count\<close> stays 0, so the loop condition \<open>frame_count < 100\<close> never turns
  false and no amount of fuel lets the run end. (Pipeline A ends after at most 100
  iterations: \<open>loop_A_bounded\<close>, \<open>main_A_one_body_ends\<close>.)
\<close>

theorem loop_B_never_ends:
  "main_B fuel table2 startup_cuda env_one_body = None"
proof -
  let ?t = "tracker_handle K4ABT_TRACKER_PROCESSING_MODE_GPU_CUDA"
  have "\<exists>es. frame_B ?t table2 (env_one_body i) = Continue es" for i
    using frame_B_tracked [of "env_one_body i" table2 ?t]
    by (simp add: env_one_body_def io_tracked_def k4abt_frame_get_num_bodies_def table2_def)
  then have "loop_B fuel ?t table2 env_one_body 0 0 tr = None" for tr
    by (intro loop_B_keeps_running) simp_all
  then show ?thesis
    by (simp add: main_B_def startup_cuda_def publish_B_def session_B_def)
qed

text \<open>
  C10: in every run of either pipeline, whichever branch the tracker creation took,
  every stream for which an outlet is created declares the channel format
  \<open>cft_double64\<close>, and every sample is pushed by \<open>lsl_push_sample_f\<close>, the push for
  32-bit floats, from the float buffer; the two value types differ. For pipeline B the
  run is one that ends (enough fuel); the pushes of each single iteration are covered
  as well.
\<close>

theorem declared_double_pushed_float:
  "(\<forall>info \<in> set (outlets (outcome_log (main_A J s env))). channel_format info = cft_double64)
   \<and> set (push_formats (outcome_log (main_A J s env))) \<subseteq> {cft_float32}
   \<and> (\<forall>out. main_B fuel J s env = Some out \<longrightarrow>
         (\<forall>info \<in> set (outlets (outcome_log out)). channel_format info = cft_double64)
         \<and> set (push_formats (outcome_log out)) \<subseteq> {cft_float32})
   \<and> set (push_formats (flow_log (frame_A t J io))) \<subseteq> {cft_float32}
   \<and> set (push_formats (flow_log (frame_B t J io))) \<subseteq> {cft_float32}
   \<and> channel_format (describe_A J (create_info fallback)) = cft_double64
   \<and> channel_format (describe_B J (create_info fallback)) = cft_double64
   \<and> cft_float32 \<noteq> cft_double64"
proof -
  have a: "\<forall>info \<in> set (outlets (outcome_log (main_A J s env))). channel_format info = cft_double64"
    using outlets_main_A [of J s env] by (auto simp: channel_format_A)
  have b: "\<forall>info \<in> set (outlets (outcome_log out)). channel_format info = cft_double64"
    if "main_B fuel J s env = Some out" for out
    using outlets_main_B [OF that] by (auto simp: channel_format_B)
  show ?thesis
    using a b by (simp add: push_formats_float32 channel_format_A channel_format_B)
qed

theorem declared_double_pushed_float_witness:
  "outlets (outcome_log (main_A table2 startup_cuda env_one_then_two))
     = [describe_A table2 (create_info False)]
   \<and> channel_format (describe_A table2 (create_info False)) = cft_double64
   \<and> push_formats (outcome_log (main_A table2 startup_cuda env_one_then_two)) = [cft_float32]
   \<and> map_option (\<lambda>out. outlets (outcome_log out)) (main_B 2 table2 startup_cuda env_one_then_two)
       = Some [describe_B table2 (create_info False)]
   \<and> channel_format (describe_B table2 (create_info False)) = cft_double64
   \<and> map_option (\<lambda>out. push_formats (outcome_log out))
         (main_B 2 table2 startup_cuda env_one_then_two) = Some [cft_float32]"
  using declared_double_pushed_float
          [of table2 startup_cuda env_one_then_two 2 NULL "env_one_then_two 0" False]
  by (simp add: main_A_one_then_two main_B_one_then_two)

end
